theory Spec2Isabelle
  imports Main "HOL-Library.AList" "HOL-Library.Sublist"
begin

section \<open>Strings and paths\<close>

text \<open>
  Python \<open>str\<close> and \<open>bytes\<close> values are both modelled as \<open>string\<close> (lists of
  8-bit characters). The conversion between them (\<open>bytes.decode()\<close>) is library code and
  is taken from the environment, see \<open>decode\<close> below.
\<close>

text \<open>\<open>RCLONE_REMOTE\<close> and \<open>LOCAL_UPLOAD_PATH\<close> (main.py 69-70, files.py 17).\<close>

definition RCLONE_REMOTE :: string where
  "RCLONE_REMOTE = ''GCS:media_mover_test''"

definition LOCAL_UPLOAD_PATH :: string where
  "LOCAL_UPLOAD_PATH = ''uploads''"

text \<open>
  \<open>s.replace("//", "/")\<close>: Python replaces the non-overlapping occurrences found by one
  scan from the left.
\<close>

fun replace_dslash :: "string \<Rightarrow> string" where
  "replace_dslash (a # b # cs) =
     (if a = CHR ''/'' \<and> b = CHR ''/'' then CHR ''/'' # replace_dslash cs
      else a # replace_dslash (b # cs))"
| "replace_dslash cs = cs"

text \<open>\<open>".." in s\<close>: the substring test of the path check.\<close>

fun has_dotdot :: "string \<Rightarrow> bool" where
  "has_dotdot (a # b # cs) = ((a = CHR ''.'' \<and> b = CHR ''.'') \<or> has_dotdot (b # cs))"
| "has_dotdot cs = False"

text \<open>\<open>s.split("/")\<close>: the components between separators, empty ones included.\<close>

fun split_sep :: "string \<Rightarrow> string list" where
  "split_sep [] = [[]]"
| "split_sep (c # cs) =
     (if c = CHR ''/'' then [] # split_sep cs
      else (case split_sep cs of [] \<Rightarrow> [[c]] | x # xs \<Rightarrow> (c # x) # xs))"

definition is_abs :: "string \<Rightarrow> bool" where
  "is_abs p = (p \<noteq> [] \<and> hd p = CHR ''/'')"

text \<open>
  A canonical absolute path is the list of its components below the root.
  \<open>walk\<close> is the lexical part of \<open>os.path.realpath\<close>, which \<open>Path.resolve()\<close> calls:
  empty components and \<open>.\<close> are skipped, \<open>..\<close> drops the last component (the parent of
  the root is the root). Symbolic links are not modelled.
\<close>

fun walk :: "string list \<Rightarrow> string list \<Rightarrow> string list" where
  "walk st [] = st"
| "walk st (c # cs) =
     (if c = [] \<or> c = ''.'' then walk st cs
      else if c = ''..'' then walk (butlast st) cs
      else walk (st @ [c]) cs)"

definition resolve :: "string list \<Rightarrow> string \<Rightarrow> string list" where
  "resolve wd p = walk (if is_abs p then [] else wd) (split_sep p)"

text \<open>\<open>str\<close> of a canonical absolute path.\<close>

definition path_str :: "string list \<Rightarrow> string" where
  "path_str cs = (if cs = [] then ''/'' else concat (map (\<lambda>c. CHR ''/'' # c) cs))"

text \<open>
  \<open>str(PurePosixPath(s))\<close>: pathlib drops empty and \<open>.\<close> components and a trailing
  separator, keeps \<open>..\<close>, keeps exactly two leading separators, and prints the empty
  path as \<open>.\<close>.
\<close>

definition pure_parts :: "string \<Rightarrow> string list" where
  "pure_parts s = filter (\<lambda>c. c \<noteq> [] \<and> c \<noteq> ''.'') (split_sep s)"

definition pure_root :: "string \<Rightarrow> string" where
  "pure_root s =
     (if take 2 s = ''//'' \<and> take 3 s \<noteq> ''///'' then ''//''
      else if take 1 s = ''/'' then ''/'' else [])"

fun join_sep :: "string list \<Rightarrow> string" where
  "join_sep [] = []"
| "join_sep [c] = c"
| "join_sep (c # cs) = c @ CHR ''/'' # join_sep cs"

definition pure_str :: "string \<Rightarrow> string" where
  "pure_str s =
     (let r = pure_root s @ join_sep (pure_parts s) in if r = [] then ''.'' else r)"

text \<open>\<open>Path(s).name\<close>: the last component, empty when there is none.\<close>

definition path_name :: "string \<Rightarrow> string" where
  "path_name s = (let cs = pure_parts s in if cs = [] then [] else last cs)"

text \<open>\<open>str(Path(d) / f)\<close>: an absolute right operand replaces the left one.\<close>

definition path_div :: "string \<Rightarrow> string \<Rightarrow> string" where
  "path_div d f = (if is_abs f then pure_str f else pure_str (d @ CHR ''/'' # f))"

text \<open>\<open>str(Path(s).parent)\<close> for a relative path \<open>s\<close> in pathlib's normal form.\<close>

definition path_parent :: "string \<Rightarrow> string" where
  "path_parent s = pure_str (pure_root s @ join_sep (butlast (pure_parts s)))"


text \<open>
  \<open>b.strip()\<close> on bytes removes leading and trailing ASCII whitespace
  (space, tab, newline, carriage return, vertical tab, form feed).
\<close>

definition is_space :: "char \<Rightarrow> bool" where
  "is_space c = (c \<in> set [CHR '' '', CHR 0x09, CHR 0x0A, CHR 0x0B, CHR 0x0C, CHR 0x0D])"

definition strip :: "string \<Rightarrow> string" where
  "strip s = rev (dropWhile is_space (rev (dropWhile is_space s)))"

text \<open>Decimal digits of a natural number, as \<open>str(n)\<close> prints them.\<close>

fun dec_nat :: "nat \<Rightarrow> string" where
  "dec_nat n =
     (if n < 10 then [''0123456789'' ! n]
      else dec_nat (n div 10) @ [''0123456789'' ! (n mod 10)])"

declare dec_nat.simps [simp del]


section \<open>Exceptions, the external tool, the environment\<close>

text \<open>
  \<open>HTTPException(status_code, detail)\<close> of the web framework, and every other Python
  exception, kept as the text that \<open>str(e)\<close> gives.
\<close>

datatype exn = HTTPException nat string | PyError string

text \<open>
  \<open>str(e)\<close>. For the framework's \<open>HTTPException\<close> it is
  \<open>f"{status_code}: {detail}"\<close> (the \<open>__str__\<close> of Starlette's class, which FastAPI's
  \<open>HTTPException\<close> inherits).
\<close>

fun exn_str :: "exn \<Rightarrow> string" where
  "exn_str (HTTPException c d) = dec_nat c @ '': '' @ d"
| "exn_str (PyError m) = m"

text \<open>
  What one run of the external tool gives back after \<open>communicate()\<close>: the exit status and
  the two captured streams (bytes). \<open>wrote\<close> lists the local files the tool created (path
  and content), which is how a copy-down reaches the local disk.
\<close>

record proc_result =
  returncode :: int
  stdout :: string
  stderr :: string
  wrote :: "(string \<times> string) list"

text \<open>One entry of the tool's \<open>lsjson\<close> output, with the keys the handler reads.\<close>

record entry =
  Path :: string
  Name :: string
  IsDir :: bool
  Size :: int
  ModTime :: string

text \<open>
  Everything outside the repository that the handlers depend on:
  \<^item> \<open>cwd\<close>: the working directory of the server, a canonical absolute path;
  \<^item> \<open>tool n argv\<close>: the outcome of the \<open>n\<close>-th subprocess of the run when started with
    \<open>argv\<close>; \<open>Inl\<close> is the text of the exception of \<open>create_subprocess_exec\<close> when the
    process cannot be started;
  \<^item> \<open>write_fault n p\<close>: whether writing the body of the \<open>n\<close>-th file the run creates, at
    path \<open>p\<close>, breaks off (a full disk, say); \<open>Some (m, part)\<close> gives the text of the
    exception and what had been written by then;
  \<^item> \<open>decode\<close>: \<open>bytes.decode()\<close>; \<open>Inl\<close> is the text of its \<open>UnicodeDecodeError\<close>;
  \<^item> \<open>lsjson\<close>: \<open>json.loads(stdout.decode())\<close> followed by the reads of the five keys of
    every item and the validation of \<open>FileItem\<close>; \<open>Inl\<close> is the text of the exception
    of the first of these steps that fails.
\<close>

record env =
  cwd :: "string list"
  tool :: "nat \<Rightarrow> string list \<Rightarrow> string + proc_result"
  write_fault :: "nat \<Rightarrow> string \<Rightarrow> (string \<times> string) option"
  decode :: "string \<Rightarrow> string + string"
  lsjson :: "string \<Rightarrow> string + entry list"

section \<open>The state: local files, the upload table, the trace of effects\<close>

datatype node = File string | Dir

datatype event =
    Spawn "string list"
  | Write string
  | WriteFailed string
  | Unlink string
  | Mkdir string
  | Rmdir string
  | Rmtree string
  | Stream string

text \<open>\<open>models.FileUpload\<close> (models.py 18-31); \<open>id\<close> and \<open>created_at\<close> are filled in by the database.\<close>

record file_upload =
  row_filename :: string
  row_size :: int
  mime_type :: string
  upload_path :: string
  status :: string
  error_message :: "string option"
  uploaded_by :: int

text \<open>
  The local file system maps canonical absolute paths to nodes (the root is always a
  directory); \<open>rows\<close> is the committed content of table \<open>file_uploads\<close>, \<open>session\<close> the
  objects added to the request's database session and not yet committed; \<open>log\<close> records
  the effects in the order they happen.
\<close>

record world =
  fs :: "(string list \<times> node) list"
  rows :: "file_upload list"
  session :: "file_upload list"
  log :: "event list"

fun spawns :: "event list \<Rightarrow> string list list" where
  "spawns [] = []"
| "spawns (Spawn argv # es) = argv # spawns es"
| "spawns (e # es) = spawns es"

text \<open>
  \<open>Write p\<close> is recorded when the file \<open>p\<close> is created or truncated by \<open>open\<close>, and
  \<open>WriteFailed p\<close> when the writing of its body breaks off afterwards.
\<close>

fun writes :: "event list \<Rightarrow> string list" where
  "writes [] = []"
| "writes (Write p # es) = p # writes es"
| "writes (e # es) = writes es"

fun failed_writes :: "event list \<Rightarrow> string list" where
  "failed_writes [] = []"
| "failed_writes (WriteFailed p # es) = p # failed_writes es"
| "failed_writes (e # es) = failed_writes es"

section \<open>Computations that may raise\<close>

type_synonym 'a io = "world \<Rightarrow> (exn + 'a) \<times> world"

definition ret :: "'a \<Rightarrow> 'a io" where
  "ret x w = (Inr x, w)"

definition raise :: "exn \<Rightarrow> 'a io" where
  "raise e w = (Inl e, w)"

definition io_bind :: "'a io \<Rightarrow> ('a \<Rightarrow> 'b io) \<Rightarrow> 'b io" where
  "io_bind m f w = (case m w of (Inl e, w') \<Rightarrow> (Inl e, w') | (Inr x, w') \<Rightarrow> f x w')"

text \<open>
  \<open>try: m finally: c\<close>. The cleanup runs whatever \<open>m\<close> did; an exception of the cleanup
  replaces the outcome of \<open>m\<close>.
\<close>

definition io_finally :: "'a io \<Rightarrow> unit io \<Rightarrow> 'a io" where
  "io_finally m c w =
     (case m w of (r, w') \<Rightarrow>
        (case c w' of (Inl e, w'') \<Rightarrow> (Inl e, w'') | (Inr u, w'') \<Rightarrow> (r, w'')))"

text \<open>
  \<open>try: m except Exception as e: raise HTTPException(status_code=500, detail=str(e))\<close>,
  the outermost statement of every handler. \<open>HTTPException\<close> is itself an \<open>Exception\<close>.
\<close>

definition catch_all :: "'a io \<Rightarrow> 'a io" where
  "catch_all m w =
     (case m w of (Inl e, w') \<Rightarrow> (Inl (HTTPException 500 (exn_str e)), w')
                | (Inr x, w') \<Rightarrow> (Inr x, w'))"

section \<open>Local file system\<close>

text \<open>
  Every operation resolves its path lexically against the working directory, as
  \<open>resolve\<close> does. Symbolic links and access rights are not modelled: an operation fails
  only for the structural reasons written out below.
\<close>

definition key :: "env \<Rightarrow> string \<Rightarrow> string list" where
  "key env p = resolve (cwd env) p"

definition node_at :: "(string list \<times> node) list \<Rightarrow> string list \<Rightarrow> node option" where
  "node_at f k = (if k = [] then Some Dir else map_of f k)"

text \<open>A path whose last component is empty, \<open>.\<close> or \<open>..\<close> can only name a directory.\<close>

definition names_dir :: "string \<Rightarrow> bool" where
  "names_dir p = (last (split_sep p) \<in> set [[], ''.'', ''..''])"

text \<open>
  \<open>open(p, "wb+")\<close> and \<open>open(p, "w")\<close>: the file is created, or truncated when it
  exists; the call fails on a directory and when the parent directory is missing.
\<close>

definition open_create :: "env \<Rightarrow> string \<Rightarrow> unit io" where
  "open_create env p w =
     (let k = key env p in
      if names_dir p \<or> node_at (fs w) k = Some Dir
      then (Inl (PyError (''[Errno 21] Is a directory: '' @ p)), w)
      else if node_at (fs w) (butlast k) \<noteq> Some Dir
      then (Inl (PyError (''[Errno 2] No such file or directory: '' @ p)), w)
      else (Inr (), w\<lparr>fs := AList.update k (File []) (fs w), log := log w @ [Write p]\<rparr>))"

text \<open>
  \<open>shutil.copyfileobj(file.file, file_object)\<close> into the file just opened at \<open>p\<close>: the
  body is written, unless the environment breaks the writing off; then the file keeps
  what had been written and the exception is raised.
\<close>

definition copyfileobj :: "env \<Rightarrow> string \<Rightarrow> string \<Rightarrow> unit io" where
  "copyfileobj env p data w =
     (case write_fault env (length (writes (log w))) p of
        None \<Rightarrow> (Inr (), w\<lparr>fs := AList.update (key env p) (File data) (fs w)\<rparr>)
      | Some (m, part) \<Rightarrow>
          (Inl (PyError m),
           w\<lparr>fs := AList.update (key env p) (File part) (fs w),
              log := log w @ [WriteFailed p]\<rparr>))"

text \<open>
  \<open>with open(p, "wb+") as file_object: shutil.copyfileobj(file.file, file_object)\<close>
  (main.py 90-91 and 156-157).
\<close>

definition open_write :: "env \<Rightarrow> string \<Rightarrow> string \<Rightarrow> unit io" where
  "open_write env p data = io_bind (open_create env p) (\<lambda>u. copyfileobj env p data)"

text \<open>\<open>os.path.exists(p)\<close> and \<open>Path(p).exists()\<close>.\<close>

definition path_exists :: "env \<Rightarrow> string \<Rightarrow> bool io" where
  "path_exists env p w = (Inr (node_at (fs w) (key env p) \<noteq> None), w)"

text \<open>\<open>os.remove(p)\<close> and \<open>Path(p).unlink()\<close>.\<close>

definition unlink :: "env \<Rightarrow> string \<Rightarrow> unit io" where
  "unlink env p w =
     (let k = key env p in
      case node_at (fs w) k of
        None \<Rightarrow> (Inl (PyError (''[Errno 2] No such file or directory: '' @ p)), w)
      | Some Dir \<Rightarrow> (Inl (PyError (''[Errno 21] Is a directory: '' @ p)), w)
      | Some (File d) \<Rightarrow>
          (Inr (), w\<lparr>fs := AList.delete k (fs w), log := log w @ [Unlink p]\<rparr>))"

text \<open>
  \<open>Path(p).mkdir(exist_ok=True)\<close>. The trace records the call when it succeeds, whether
  or not the directory was already there.
\<close>

definition mkdir_exist_ok :: "env \<Rightarrow> string \<Rightarrow> unit io" where
  "mkdir_exist_ok env p w =
     (let k = key env p in
      case node_at (fs w) k of
        Some Dir \<Rightarrow> (Inr (), w\<lparr>log := log w @ [Mkdir p]\<rparr>)
      | Some (File d) \<Rightarrow> (Inl (PyError (''[Errno 17] File exists: '' @ p)), w)
      | None \<Rightarrow>
          if node_at (fs w) (butlast k) \<noteq> Some Dir
          then (Inl (PyError (''[Errno 2] No such file or directory: '' @ p)), w)
          else (Inr (), w\<lparr>fs := AList.update k Dir (fs w), log := log w @ [Mkdir p]\<rparr>))"

text \<open>
  \<open>Path(p).mkdir(parents=True, exist_ok=True)\<close>: every missing directory on the way is
  created; a regular file on the way is an error.
\<close>

fun make_dirs :: "(string list \<times> node) list \<Rightarrow> string list \<Rightarrow> string list \<Rightarrow>
    (string list \<times> node) list option" where
  "make_dirs f pre [] = Some f"
| "make_dirs f pre (c # cs) =
     (case node_at f (pre @ [c]) of
        Some (File d) \<Rightarrow> None
      | Some Dir \<Rightarrow> make_dirs f (pre @ [c]) cs
      | None \<Rightarrow> make_dirs (AList.update (pre @ [c]) Dir f) (pre @ [c]) cs)"

definition mkdir_parents :: "env \<Rightarrow> string \<Rightarrow> unit io" where
  "mkdir_parents env p w =
     (case make_dirs (fs w) [] (key env p) of
        None \<Rightarrow> (Inl (PyError (''[Errno 17] File exists: '' @ p)), w)
      | Some f \<Rightarrow> (Inr (), w\<lparr>fs := f, log := log w @ [Mkdir p]\<rparr>))"

text \<open>\<open>any(Path(p).iterdir())\<close>: whether the directory has an entry.\<close>

definition has_children :: "(string list \<times> node) list \<Rightarrow> string list \<Rightarrow> bool" where
  "has_children f k = list_ex (\<lambda>(k', n). k' \<noteq> [] \<and> butlast k' = k) f"

definition iterdir_any :: "env \<Rightarrow> string \<Rightarrow> bool io" where
  "iterdir_any env p w =
     (let k = key env p in
      case node_at (fs w) k of
        None \<Rightarrow> (Inl (PyError (''[Errno 2] No such file or directory: '' @ p)), w)
      | Some (File d) \<Rightarrow> (Inl (PyError (''[Errno 20] Not a directory: '' @ p)), w)
      | Some Dir \<Rightarrow> (Inr (has_children (fs w) k), w))"

text \<open>\<open>Path(p).rmdir()\<close>.\<close>

definition rmdir :: "env \<Rightarrow> string \<Rightarrow> unit io" where
  "rmdir env p w =
     (let k = key env p in
      case node_at (fs w) k of
        None \<Rightarrow> (Inl (PyError (''[Errno 2] No such file or directory: '' @ p)), w)
      | Some (File d) \<Rightarrow> (Inl (PyError (''[Errno 20] Not a directory: '' @ p)), w)
      | Some Dir \<Rightarrow>
          if has_children (fs w) k \<or> k = []
          then (Inl (PyError (''[Errno 39] Directory not empty: '' @ p)), w)
          else (Inr (), w\<lparr>fs := AList.delete k (fs w), log := log w @ [Rmdir p]\<rparr>))"

text \<open>\<open>shutil.rmtree(p)\<close>: the directory and everything below it.\<close>

definition rmtree :: "env \<Rightarrow> string \<Rightarrow> unit io" where
  "rmtree env p w =
     (let k = key env p in
      case node_at (fs w) k of
        None \<Rightarrow> (Inl (PyError (''[Errno 2] No such file or directory: '' @ p)), w)
      | Some (File d) \<Rightarrow> (Inl (PyError (''[Errno 20] Not a directory: '' @ p)), w)
      | Some Dir \<Rightarrow>
          (Inr (), w\<lparr>fs := filter (\<lambda>(k', n). \<not> prefix k k') (fs w),
                     log := log w @ [Rmtree p]\<rparr>))"

section \<open>Running the external tool\<close>

text \<open>The files a run of the tool leaves on the local disk; it does not replace a directory.\<close>

fun tool_writes :: "env \<Rightarrow> (string \<times> string) list \<Rightarrow> (string list \<times> node) list \<Rightarrow>
    (string list \<times> node) list" where
  "tool_writes env [] f = f"
| "tool_writes env ((p, d) # ps) f =
     tool_writes env ps
       (if node_at f (key env p) = Some Dir then f else AList.update (key env p) (File d) f)"

text \<open>
  What \<open>rclone lsf --dirs-only\<close> prints for a remote path: one line per directory found
  there, the name of the directory followed by a slash; nothing when there is none.
\<close>

definition lsf_dirs :: "string list \<Rightarrow> string" where
  "lsf_dirs names = concat (map (\<lambda>name. name @ ''/'' @ [CHR 0x0A]) names)"

text \<open>
  \<open>asyncio.create_subprocess_exec(*argv, stdout=PIPE, stderr=PIPE)\<close> followed by
  \<open>communicate()\<close>. Every attempt is recorded in the trace.
\<close>

definition spawn :: "env \<Rightarrow> string list \<Rightarrow> proc_result io" where
  "spawn env argv w =
     (let w1 = w\<lparr>log := log w @ [Spawn argv]\<rparr> in
      case tool env (length (spawns (log w))) argv of
        Inl m \<Rightarrow> (Inl (PyError m), w1)
      | Inr p \<Rightarrow> (Inr p, w1\<lparr>fs := tool_writes env (wrote p) (fs w1)\<rparr>))"

definition decode_text :: "env \<Rightarrow> string \<Rightarrow> string io" where
  "decode_text env b = (case decode env b of Inl m \<Rightarrow> raise (PyError m) | Inr t \<Rightarrow> ret t)"

section \<open>The database session\<close>

text \<open>
  Modelled from the spec: \<open>database.get_db\<close> is not among the sources; section 5 of the
  specification says the record store is written under a transaction per request, so
  each request starts with a session of its own that holds no pending object.
\<close>

definition get_db :: "world \<Rightarrow> world" where
  "get_db w = w\<lparr>session := []\<rparr>"

text \<open>\<open>db.add(obj)\<close> and \<open>db.commit()\<close>.\<close>

definition db_add :: "file_upload \<Rightarrow> unit io" where
  "db_add r w = (Inr (), w\<lparr>session := session w @ [r]\<rparr>)"

definition db_commit :: "unit io" where
  "db_commit w = (Inr (), w\<lparr>rows := rows w @ session w, session := []\<rparr>)"


section \<open>Requests and responses\<close>

text \<open>\<open>FileItem\<close> (files.py 19-25).\<close>

record file_item =
  item_id :: string
  item_name :: string
  item_type :: string
  item_size :: int
  item_modified :: string
  item_path :: string

text \<open>One part of a multipart upload (\<open>UploadFile\<close>): the fields the handlers read.\<close>

record upload_part =
  filename :: string
  file_body :: string
  file_size :: int
  content_type :: string

text \<open>
  The authenticated account that \<open>Depends(get_current_user)\<close> hands to a handler. The
  handlers below are run for requests that have passed authentication; \<open>auth.py\<close> is not
  among the sources, and only \<open>upload_multiple_files\<close> reads the account.
\<close>

record user =
  user_id :: int
  username :: string

text \<open>What a handler returns.\<close>

datatype payload =
    Listing "file_item list"
  | Message string
  | Uploaded string
  | UploadedMany "string list" string
  | FileResponse string string

datatype body = Detail string | Json payload | FileBytes string | InternalServerError

datatype http_response = Http (status_code: nat) (content: body)

text \<open>
  What the framework does with the outcome of a handler. An \<open>HTTPException\<close> becomes a
  response with its status and detail; a returned value becomes a 200 response. A
  \<open>FileResponse\<close> holds only the path: the file is opened and read when the response is
  sent, after the handler has returned, and a missing file is a server error.
\<close>

definition respond :: "env \<Rightarrow> (exn + payload) \<times> world \<Rightarrow> http_response \<times> world" where
  "respond env rw =
     (case rw of (r, w) \<Rightarrow>
        (case r of
           Inl (HTTPException c d) \<Rightarrow> (Http c (Detail d), w)
         | Inl (PyError m) \<Rightarrow> (Http 500 InternalServerError, w)
         | Inr (FileResponse p n) \<Rightarrow>
             (case node_at (fs w) (key env p) of
                Some (File d) \<Rightarrow> (Http 200 (FileBytes d), w\<lparr>log := log w @ [Stream p]\<rparr>)
              | Some Dir \<Rightarrow> (Http 500 InternalServerError, w\<lparr>log := log w @ [Stream p]\<rparr>)
              | None \<Rightarrow> (Http 500 InternalServerError, w\<lparr>log := log w @ [Stream p]\<rparr>))
         | Inr v \<Rightarrow> (Http 200 (Json v), w)))"

definition serve :: "env \<Rightarrow> payload io \<Rightarrow> world \<Rightarrow> http_response \<times> world" where
  "serve env handler w = respond env (handler w)"

section \<open>The handlers of files.py\<close>

text \<open>
  The path check that opens every handler taking a path (files.py 38-40, 91-93, 147-149,
  202-204; main.py 142-144): \<open>clean_path = Path(path).resolve()\<close>, then
  \<open>if ".." in str(clean_path): raise HTTPException(status_code=400, detail=msg)\<close>.
\<close>

definition clean_path :: "env \<Rightarrow> string \<Rightarrow> string" where
  "clean_path env path = path_str (resolve (cwd env) path)"

definition path_check :: "env \<Rightarrow> string \<Rightarrow> string \<Rightarrow> unit io" where
  "path_check env msg path =
     (if has_dotdot (clean_path env path) then raise (HTTPException 400 msg) else ret ())"

text \<open>The conversion of one listing entry (files.py 66-73).\<close>

definition to_file_item :: "string \<Rightarrow> entry \<Rightarrow> file_item" where
  "to_file_item path item =
     \<lparr>item_id = replace_dslash (path @ ''/'' @ Path item),
      item_name = Name item,
      item_type = (if IsDir item then ''folder'' else ''file''),
      item_size = Size item,
      item_modified = ModTime item,
      item_path = replace_dslash (path @ ''/'' @ Path item)\<rparr>"

definition parse_listing :: "env \<Rightarrow> string \<Rightarrow> entry list io" where
  "parse_listing env b = (case lsjson env b of Inl m \<Rightarrow> raise (PyError m) | Inr es \<Rightarrow> ret es)"

text \<open>\<open>GET /files\<close> (files.py 27-78).\<close>

definition list_argv :: "string \<Rightarrow> string list" where
  "list_argv path =
     [''rclone'', ''lsjson'', replace_dslash (RCLONE_REMOTE @ ''/'' @ path),
      ''--gcs-bucket-policy-only'', ''--no-traverse'']"

definition list_files :: "env \<Rightarrow> string \<Rightarrow> payload io" where
  "list_files env path =
     catch_all
       (io_bind (path_check env ''Invalid path'' path) (\<lambda>u.
        io_bind (spawn env (list_argv path)) (\<lambda>process.
        if returncode process \<noteq> 0
        then io_bind (decode_text env (stderr process)) (\<lambda>t.
               raise (HTTPException 500 (''Failed to list files: '' @ t)))
        else io_bind (parse_listing env (stdout process)) (\<lambda>items.
               ret (Listing (map (to_file_item path) items))))))"

text \<open>\<open>GET /download\<close> (files.py 80-134).\<close>

definition temp_downloads :: string where
  "temp_downloads = ''temp_downloads''"

definition download_local_path :: "string \<Rightarrow> string" where
  "download_local_path path = path_div temp_downloads (path_name path)"

definition download_argv :: "string \<Rightarrow> string list" where
  "download_argv path =
     [''rclone'', ''copy'', RCLONE_REMOTE @ ''/'' @ path,
      path_parent (download_local_path path)]"

definition download_cleanup :: "env \<Rightarrow> string \<Rightarrow> unit io" where
  "download_cleanup env local_path =
     io_bind (path_exists env local_path) (\<lambda>there.
     io_bind (if there then unlink env local_path else ret ()) (\<lambda>u.
     io_bind (iterdir_any env temp_downloads) (\<lambda>nonempty.
     if \<not> nonempty then rmdir env temp_downloads else ret ())))"

definition download_file :: "env \<Rightarrow> string \<Rightarrow> payload io" where
  "download_file env path =
     catch_all
       (io_bind (path_check env ''Invalid path'' path) (\<lambda>u.
        io_bind (mkdir_exist_ok env temp_downloads) (\<lambda>u.
        io_finally
          (io_bind (spawn env (download_argv path)) (\<lambda>process.
           if returncode process \<noteq> 0
           then io_bind (decode_text env (stderr process)) (\<lambda>t.
                  raise (HTTPException 500 (''Failed to download file: '' @ t)))
           else ret (FileResponse (download_local_path path) (path_name path))))
          (download_cleanup env (download_local_path path)))))"

text \<open>\<open>DELETE /files\<close> (files.py 136-189).\<close>

definition probe_argv :: "string \<Rightarrow> string list" where
  "probe_argv path =
     [''rclone'', ''lsf'', ''--dirs-only'', replace_dslash (RCLONE_REMOTE @ ''/'' @ path)]"

definition delete_argv :: "string \<Rightarrow> string \<Rightarrow> string list" where
  "delete_argv command path =
     [''rclone'', command, replace_dslash (RCLONE_REMOTE @ ''/'' @ path),
      ''--gcs-bucket-policy-only'', ''--no-traverse'']"

definition delete_file :: "env \<Rightarrow> string \<Rightarrow> payload io" where
  "delete_file env path =
     catch_all
       (io_bind (path_check env ''Invalid path'' path) (\<lambda>u.
        io_bind (spawn env (probe_argv path)) (\<lambda>process_check.
        let command = (if strip (stdout process_check) \<noteq> [] then ''purge'' else ''delete'') in
        io_bind (spawn env (delete_argv command path)) (\<lambda>process_delete.
        if returncode process_delete \<noteq> 0
        then io_bind (decode_text env (stderr process_delete)) (\<lambda>t.
               raise (HTTPException 500 (''Failed to delete '' @ command @ '': '' @ t)))
        else ret (Message ((if command = ''purge'' then ''Folder'' else ''File'')
                           @ '' deleted successfully''))))))"

text \<open>\<open>POST /mkdir\<close> (files.py 191-243).\<close>

definition mkdir_argv :: "string \<Rightarrow> string list" where
  "mkdir_argv path =
     [''rclone'', ''copyto'', ''/tmp/.keep'',
      replace_dslash (RCLONE_REMOTE @ ''/'' @ path @ ''/.keep''),
      ''--gcs-bucket-policy-only'', ''--no-traverse'']"

definition create_directory :: "env \<Rightarrow> string \<Rightarrow> payload io" where
  "create_directory env path =
     catch_all
       (io_bind (path_check env ''Invalid path'' path) (\<lambda>u.
        io_bind (open_create env ''/tmp/.keep'') (\<lambda>u.
        io_bind (spawn env (mkdir_argv path)) (\<lambda>process.
        if returncode process \<noteq> 0
        then io_bind (decode_text env (stderr process)) (\<lambda>t.
               raise (HTTPException 500 (''Failed to create directory: '' @ t)))
        else ret (Message ''Directory created successfully'')))))"

text \<open>\<open>POST /move\<close> (files.py 245-282).\<close>

definition move_argv :: "string \<Rightarrow> string \<Rightarrow> string list" where
  "move_argv source destination =
     [''rclone'', ''moveto'', RCLONE_REMOTE @ ''/'' @ source,
      RCLONE_REMOTE @ ''/'' @ destination]"

definition move_file :: "env \<Rightarrow> string \<Rightarrow> string \<Rightarrow> payload io" where
  "move_file env source destination =
     catch_all
       (io_bind (if has_dotdot (clean_path env source) \<or> has_dotdot (clean_path env destination)
                 then raise (HTTPException 400 ''Invalid path'') else ret ()) (\<lambda>u.
        io_bind (spawn env (move_argv source destination)) (\<lambda>process.
        if returncode process \<noteq> 0
        then io_bind (decode_text env (stderr process)) (\<lambda>t.
               raise (HTTPException 500 (''Failed to move file: '' @ t)))
        else ret (Message ''File moved successfully''))))"

section \<open>The handlers of main.py\<close>



text \<open>\<open>POST /upload-multiple/\<close> (main.py 130-226).\<close>

definition temp_dir :: string where
  "temp_dir = path_div LOCAL_UPLOAD_PATH ''temp''"

text \<open>
  The loop of lines 154-158. It returns the exception that stopped it, if any, together
  with \<open>uploaded_files\<close> as it stands at that moment, which is what the cleanup sees.
\<close>

fun save_files :: "env \<Rightarrow> upload_part list \<Rightarrow> string list \<Rightarrow> world \<Rightarrow>
    (exn option \<times> string list) \<times> world" where
  "save_files env [] uploaded_files w = ((None, uploaded_files), w)"
| "save_files env (file # files) uploaded_files w =
     (let file_location = path_div temp_dir (filename file) in
      case open_write env file_location (file_body file) w of
        (Inl e, w') \<Rightarrow> ((Some e, uploaded_files), w')
      | (Inr u, w') \<Rightarrow> save_files env files (uploaded_files @ [file_location]) w')"

definition batch_argv :: "string \<Rightarrow> string list" where
  "batch_argv folder =
     [''rclone'', ''copy'', temp_dir, RCLONE_REMOTE @ ''/'' @ folder,
      ''--gcs-bucket-policy-only'', ''--no-traverse'']"

definition db_upload :: "string \<Rightarrow> user \<Rightarrow> upload_part \<Rightarrow> file_upload" where
  "db_upload folder current_user file =
     \<lparr>row_filename = filename file,
      row_size = file_size file,
      mime_type = content_type file,
      upload_path = replace_dslash (folder @ ''/'' @ filename file),
      status = ''success'',
      error_message = None,
      uploaded_by = user_id current_user\<rparr>"

text \<open>The loop of lines 193-202.\<close>

fun log_uploads :: "string \<Rightarrow> user \<Rightarrow> upload_part list \<Rightarrow> unit io" where
  "log_uploads folder current_user [] = ret ()"
| "log_uploads folder current_user (file # files) =
     io_bind (db_add (db_upload folder current_user file)) (\<lambda>u.
     log_uploads folder current_user files)"

text \<open>The loop of lines 208-210.\<close>

fun unlink_existing :: "env \<Rightarrow> string list \<Rightarrow> unit io" where
  "unlink_existing env [] = ret ()"
| "unlink_existing env (file_path # rest) =
     io_bind (path_exists env file_path) (\<lambda>there.
     io_bind (if there then unlink env file_path else ret ()) (\<lambda>u.
     unlink_existing env rest))"

definition batch_cleanup :: "env \<Rightarrow> string list \<Rightarrow> unit io" where
  "batch_cleanup env uploaded_files =
     io_bind (unlink_existing env uploaded_files) (\<lambda>u.
     io_bind (path_exists env temp_dir) (\<lambda>there.
     if there then rmtree env temp_dir else ret ()))"

definition batch_body :: "env \<Rightarrow> upload_part list \<Rightarrow> string \<Rightarrow> user \<Rightarrow> exn option \<Rightarrow> unit io" where
  "batch_body env files folder current_user stopped =
     (case stopped of
        Some e \<Rightarrow> raise e
      | None \<Rightarrow>
          io_bind (spawn env (batch_argv folder)) (\<lambda>ignored.
          io_bind (spawn env (batch_argv folder)) (\<lambda>process.
          if returncode process \<noteq> 0
          then io_bind (decode_text env (stderr process)) (\<lambda>t.
                 raise (HTTPException 500 (''Failed to upload to cloud storage: '' @ t)))
          else io_bind (log_uploads folder current_user files) (\<lambda>u. db_commit))))"

definition upload_multiple_files ::
    "env \<Rightarrow> upload_part list \<Rightarrow> string \<Rightarrow> user \<Rightarrow> payload io" where
  "upload_multiple_files env files folder current_user w0 =
     catch_all
       (io_bind (path_check env ''Invalid folder path'' folder) (\<lambda>u.
        io_bind (mkdir_parents env temp_dir) (\<lambda>u.
        io_bind
          (\<lambda>w. case save_files env files [] w of
                  ((stopped, uploaded_files), w1) \<Rightarrow>
                    io_finally (batch_body env files folder current_user stopped)
                               (batch_cleanup env uploaded_files) w1) (\<lambda>u.
        ret (UploadedMany (map filename files) folder)))))
       (get_db w0)"


section \<open>Sample environments\<close>

text \<open>
  Concrete environments and states on which the theorems below are instantiated: the
  server runs in \<open>/srv/app\<close>, which holds the upload directory, and \<open>/tmp\<close> exists; no
  write breaks off unless said.
\<close>

definition quiet :: proc_result where
  "quiet = \<lparr>returncode = 0, stdout = [], stderr = [], wrote = []\<rparr>"

definition failing :: "string \<Rightarrow> proc_result" where
  "failing msg = \<lparr>returncode = 1, stdout = [], stderr = msg, wrote = []\<rparr>"

definition sample_env :: "(nat \<Rightarrow> string list \<Rightarrow> string + proc_result) \<Rightarrow> env" where
  "sample_env t =
     \<lparr>cwd = [''srv'', ''app''], tool = t, write_fault = (\<lambda>n p. None), decode = Inr,
      lsjson = (\<lambda>b. Inr [])\<rparr>"

definition sample_world :: world where
  "sample_world =
     \<lparr>fs = [([''srv''], Dir), ([''srv'', ''app''], Dir), ([''srv'', ''app'', ''uploads''], Dir),
            ([''tmp''], Dir)],
      rows = [], session = [], log = []\<rparr>"

definition sample_entry :: "string \<Rightarrow> entry" where
  "sample_entry p = \<lparr>Path = p, Name = p, IsDir = False, Size = 12, ModTime = ''2025-01-01T00:00:00Z''\<rparr>"

definition always :: "proc_result \<Rightarrow> nat \<Rightarrow> string list \<Rightarrow> string + proc_result" where
  "always p n argv = Inr p"

definition copied :: "string \<Rightarrow> string \<Rightarrow> proc_result" where
  "copied p d = \<lparr>returncode = 0, stdout = [], stderr = [], wrote = [(p, d)]\<rparr>"

text \<open>The tool succeeds silently at every call.\<close>

definition calm :: env where
  "calm = sample_env (always quiet)"

text \<open>The tool succeeds and leaves \<open>temp_downloads/a.txt\<close> on the local disk.\<close>

definition fetching :: env where
  "fetching = sample_env (always (copied ''temp_downloads/a.txt'' ''hello''))"

definition report :: upload_part where
  "report = \<lparr>filename = ''report.txt'', file_body = ''test content'', file_size = 12,
              content_type = ''text/plain''\<rparr>"

definition alice :: user where
  "alice = \<lparr>user_id = 7, username = ''alice''\<rparr>"

text \<open>The first subprocess of a request ends as given, every later one succeeds silently.\<close>

definition probing :: "proc_result \<Rightarrow> env" where
  "probing p = sample_env (\<lambda>n argv. Inr (if n = 0 then p else quiet))"

definition one_dir :: proc_result where
  "one_dir = \<lparr>returncode = 0, stdout = ''photos/'' @ [CHR 0x0A], stderr = [], wrote = []\<rparr>"

definition part :: "string \<Rightarrow> string \<Rightarrow> upload_part" where
  "part name data =
     \<lparr>filename = name, file_body = data, file_size = int (length data),
      content_type = ''text/plain''\<rparr>"

definition three_files :: "upload_part list" where
  "three_files = [part ''a.txt'' ''A'', part ''b.txt'' ''BB'', part ''c.txt'' ''CCC'']"

text \<open>The second subprocess of a request fails, every other one succeeds silently.\<close>

definition second_fails :: env where
  "second_fails = sample_env (\<lambda>n argv. Inr (if n = 1 then failing ''quota exceeded'' else quiet))"

text \<open>Every run of the tool fails.\<close>

definition broken :: env where
  "broken = sample_env (always (failing ''boom''))"

definition bob :: user where
  "bob = \<lparr>user_id = 8, username = ''bob''\<rparr>"


text \<open>The listing of the tool parses to the single entry \<open>b\<close>.\<close>

definition listing_b :: env where
  "listing_b = calm\<lparr>lsjson := (\<lambda>b. Inr [sample_entry ''b''])\<rparr>"


section \<open>Basic facts about the computations\<close>

lemma dec_nat_400: "dec_nat 400 = ''400''"
  by code_simp

lemma dec_nat_500: "dec_nat 500 = ''500''"
  by code_simp

lemma io_bind_Inr:
  "io_bind m f w = (Inr y, w') \<longleftrightarrow> (\<exists>x w1. m w = (Inr x, w1) \<and> f x w1 = (Inr y, w'))"
  by (auto simp: io_bind_def split: prod.splits sum.splits)

lemma catch_all_Inr: "catch_all m w = (Inr x, w') \<longleftrightarrow> m w = (Inr x, w')"
  by (auto simp: catch_all_def split: prod.splits sum.splits)

lemma io_finally_Inr:
  "io_finally m c w = (Inr x, w') \<longleftrightarrow> (\<exists>w1. m w = (Inr x, w1) \<and> c w1 = (Inr (), w'))"
  by (auto simp: io_finally_def split: prod.splits sum.splits)

lemma ret_eq: "ret x w = (r, w') \<longleftrightarrow> r = Inr x \<and> w' = w"
  by (auto simp: ret_def)

lemma raise_eq: "raise e w = (r, w') \<longleftrightarrow> r = Inl e \<and> w' = w"
  by (auto simp: raise_def)

lemma spawns_append: "spawns (es @ es') = spawns es @ spawns es'"
  by (induction es rule: spawns.induct) auto

lemma writes_append: "writes (es @ es') = writes es @ writes es'"
  by (induction es rule: writes.induct) auto

lemma node_at_root [simp]: "node_at f [] = Some Dir"
  by (simp add: node_at_def)

lemma node_at_delete:
  "node_at (AList.delete k f) k' = (if k' = k \<and> k \<noteq> [] then None else node_at f k')"
  by (simp add: node_at_def delete_conv')

lemma path_exists_eq:
  "path_exists env p w = (r, w') \<longleftrightarrow> r = Inr (node_at (fs w) (key env p) \<noteq> None) \<and> w' = w"
  by (auto simp: path_exists_def)

lemma unlink_Inr:
  "unlink env p w = (Inr u, w') \<longleftrightarrow>
     (\<exists>d. node_at (fs w) (key env p) = Some (File d)) \<and>
     w' = w\<lparr>fs := AList.delete (key env p) (fs w), log := log w @ [Unlink p]\<rparr>"
  by (auto simp: unlink_def Let_def split: option.splits node.splits)

lemma rmdir_Inr:
  "rmdir env p w = (Inr u, w') \<longleftrightarrow>
     node_at (fs w) (key env p) = Some Dir \<and> \<not> has_children (fs w) (key env p) \<and>
     key env p \<noteq> [] \<and>
     w' = w\<lparr>fs := AList.delete (key env p) (fs w), log := log w @ [Rmdir p]\<rparr>"
  by (auto simp: rmdir_def Let_def split: option.splits node.splits)

lemma iterdir_any_Inr:
  "iterdir_any env p w = (Inr b, w') \<longleftrightarrow>
     node_at (fs w) (key env p) = Some Dir \<and> b = has_children (fs w) (key env p) \<and> w' = w"
  by (auto simp: iterdir_any_def Let_def split: option.splits node.splits)

section \<open>Paths with a parent-directory segment\<close>

text \<open>
  C1: a request whose path holds a parent-directory segment gets a client error and the
  external tool is not started. The handlers test the resolved path, from which
  \<open>resolve\<close> has already removed every \<open>..\<close> segment, and hand the path as supplied to the
  tool. For the path \<open>../secret\<close> each of the six handlers starts the tool with that
  path, and none answers with a 4xx status.
\<close>

theorem traversal_path_reaches_tool:
  "fst (serve calm (list_files calm ''../secret'') sample_world) = Http 200 (Json (Listing [])) \<and>
   spawns (log (snd (serve calm (list_files calm ''../secret'') sample_world))) =
     [[''rclone'', ''lsjson'', ''GCS:media_mover_test/../secret'',
       ''--gcs-bucket-policy-only'', ''--no-traverse'']] \<and>
   status_code (fst (serve calm (download_file calm ''../secret'') sample_world)) = 500 \<and>
   spawns (log (snd (serve calm (download_file calm ''../secret'') sample_world))) =
     [[''rclone'', ''copy'', ''GCS:media_mover_test/../secret'', ''temp_downloads'']] \<and>
   status_code (fst (serve calm (delete_file calm ''../secret'') sample_world)) = 200 \<and>
   spawns (log (snd (serve calm (delete_file calm ''../secret'') sample_world))) =
     [[''rclone'', ''lsf'', ''--dirs-only'', ''GCS:media_mover_test/../secret''],
      [''rclone'', ''delete'', ''GCS:media_mover_test/../secret'',
       ''--gcs-bucket-policy-only'', ''--no-traverse'']] \<and>
   status_code (fst (serve calm (create_directory calm ''../secret'') sample_world)) = 200 \<and>
   spawns (log (snd (serve calm (create_directory calm ''../secret'') sample_world))) =
     [[''rclone'', ''copyto'', ''/tmp/.keep'', ''GCS:media_mover_test/../secret/.keep'',
       ''--gcs-bucket-policy-only'', ''--no-traverse'']] \<and>
   status_code (fst (serve calm (move_file calm ''a.txt'' ''../secret'') sample_world)) = 200 \<and>
   spawns (log (snd (serve calm (move_file calm ''a.txt'' ''../secret'') sample_world))) =
     [[''rclone'', ''moveto'', ''GCS:media_mover_test/a.txt'',
       ''GCS:media_mover_test/../secret'']] \<and>
   status_code (fst (serve calm (upload_multiple_files calm [report] ''../secret'' alice)
      sample_world)) = 200 \<and>
   spawns (log (snd (serve calm (upload_multiple_files calm [report] ''../secret'' alice)
      sample_world))) =
     [[''rclone'', ''copy'', ''uploads/temp'', ''GCS:media_mover_test/../secret'',
       ''--gcs-bucket-policy-only'', ''--no-traverse''],
      [''rclone'', ''copy'', ''uploads/temp'', ''GCS:media_mover_test/../secret'',
       ''--gcs-bucket-policy-only'', ''--no-traverse'']]"
  by (intro conjI; code_simp)

section \<open>The status of a rejected path\<close>


lemma rejected_folder_is_500:
  assumes "has_dotdot (clean_path env folder)"
  shows "upload_multiple_files env files folder current_user w =
         (Inl (HTTPException 500 ''400: Invalid folder path''), get_db w)"
  using assms
  by (simp add: upload_multiple_files_def catch_all_def io_bind_def path_check_def raise_def
      dec_nat_400)

text \<open>
  C6: when the path check rejects, the response is a client error (4xx). The path \<open>a..b\<close>
  is rejected (its resolved form \<open>/srv/app/a..b\<close> contains two dots in a row), and every
  handler answers with status 500, without starting the tool.
\<close>

theorem rejected_path_answers_500:
  "has_dotdot (clean_path calm ''a..b'') \<and>
   serve calm (list_files calm ''a..b'') sample_world =
     (Http 500 (Detail ''400: Invalid path''), sample_world) \<and>
   serve calm (download_file calm ''a..b'') sample_world =
     (Http 500 (Detail ''400: Invalid path''), sample_world) \<and>
   serve calm (delete_file calm ''a..b'') sample_world =
     (Http 500 (Detail ''400: Invalid path''), sample_world) \<and>
   serve calm (create_directory calm ''a..b'') sample_world =
     (Http 500 (Detail ''400: Invalid path''), sample_world) \<and>
   serve calm (move_file calm ''a..b'' ''c'') sample_world =
     (Http 500 (Detail ''400: Invalid path''), sample_world) \<and>
   serve calm (upload_multiple_files calm [report] ''a..b'' alice) sample_world =
     (Http 500 (Detail ''400: Invalid folder path''), sample_world)"
  by (intro conjI; code_simp)

section \<open>The order of cleanup and streaming in a download\<close>

lemma download_cleanup_post:
  assumes "download_cleanup env lp w = (Inr u, w')"
  shows "node_at (fs w') (key env lp) \<noteq> Some (File d)"
  using assms
  by (auto simp: download_cleanup_def io_bind_Inr path_exists_eq unlink_Inr rmdir_Inr
      iterdir_any_Inr ret_eq node_at_delete split: if_splits)

lemma download_file_Inr:
  assumes "download_file env path w = (Inr v, w')"
  shows "v = FileResponse (download_local_path path) (path_name path) \<and>
         (\<forall>d. node_at (fs w') (key env (download_local_path path)) \<noteq> Some (File d))"
  using assms
  by (auto simp: download_file_def catch_all_Inr io_bind_Inr io_finally_Inr ret_eq raise_eq
      dest: download_cleanup_post split: if_splits)

text \<open>
  Whatever the environment, the path and the state: the download endpoint never answers
  with the content of a file, because the local copy is gone when the response is sent.
\<close>

lemma download_never_streams:
  "fst (serve env (download_file env path) w) \<noteq> Http 200 (FileBytes d)"
proof (cases "download_file env path w")
  case (Pair r w')
  show ?thesis
  proof (cases r)
    case (Inl e)
    with Pair show ?thesis
      by (auto simp: serve_def respond_def split: exn.splits)
  next
    case (Inr v)
    with Pair download_file_Inr [of env path w v w'] show ?thesis
      by (auto simp: serve_def respond_def split: option.splits node.splits)
  qed
qed

text \<open>
  C7: the download endpoint copies the remote file into a transient directory, streams
  it as the response body and only then deletes the local copy. In the code the deletion
  is the \<open>finally\<close> block of the handler, which runs before the handler's return value
  reaches the framework. For \<open>reports/a.txt\<close>, with the tool leaving the copy in
  \<open>temp_downloads\<close>: the handler returns the file response, the trace shows the copy
  unlinked and the directory removed before the streaming starts, and the caller gets
  a server error instead of the file.
\<close>

theorem download_unlinks_before_streaming:
  "fst (download_file fetching ''reports/a.txt'' sample_world) =
     Inr (FileResponse ''temp_downloads/a.txt'' ''a.txt'') \<and>
   log (snd (serve fetching (download_file fetching ''reports/a.txt'') sample_world)) =
     [Mkdir ''temp_downloads'',
      Spawn [''rclone'', ''copy'', ''GCS:media_mover_test/reports/a.txt'', ''temp_downloads''],
      Unlink ''temp_downloads/a.txt'', Rmdir ''temp_downloads'',
      Stream ''temp_downloads/a.txt''] \<and>
   fst (serve fetching (download_file fetching ''reports/a.txt'') sample_world) =
     Http 500 InternalServerError"
  by (intro conjI; code_simp)

section \<open>Facts about the local file system and the tool\<close>

lemma node_at_update_any:
  "node_at (AList.update k v f) k' =
     (if k' = [] then Some Dir else if k' = k then Some v else node_at f k')"
  by (simp add: node_at_def update_conv')

lemma failed_writes_append: "failed_writes (es @ es') = failed_writes es @ failed_writes es'"
  by (induction es rule: failed_writes.induct) auto

text \<open>
  The three ways \<open>open_write\<close> can end: the file cannot be opened and nothing changes; the
  file is created and the body written; the file is created and the writing breaks off.
\<close>

lemma open_write_cases:
  assumes "open_write env p data w = (r, w')"
  shows "((\<exists>e. r = Inl e) \<and> w' = w) \<or>
         (node_at (fs w) (key env p) \<noteq> Some Dir \<and> r = Inr () \<and>
          w' = w\<lparr>fs := AList.update (key env p) (File data)
                          (AList.update (key env p) (File []) (fs w)),
                  log := log w @ [Write p]\<rparr>) \<or>
         (node_at (fs w) (key env p) \<noteq> Some Dir \<and>
          (\<exists>m part. r = Inl (PyError m) \<and>
             write_fault env (Suc (length (writes (log w)))) p = Some (m, part) \<and>
             w' = w\<lparr>fs := AList.update (key env p) (File part)
                             (AList.update (key env p) (File []) (fs w)),
                     log := log w @ [Write p, WriteFailed p]\<rparr>))"
  using assms
  by (auto simp: open_write_def open_create_def copyfileobj_def io_bind_def Let_def writes_append
      split: if_splits option.splits)

lemma open_write_frame:
  assumes "open_write env p data w = (r, w')"
  shows "rows w' = rows w" "session w' = session w" "spawns (log w') = spawns (log w)"
    "node_at (fs w') k = Some Dir \<longleftrightarrow> node_at (fs w) k = Some Dir"
  using open_write_cases [OF assms]
  by (auto simp: spawns_append node_at_update_any split: if_splits)



lemma tool_writes_dir:
  "node_at (tool_writes env ps f) k = Some Dir \<longleftrightarrow> node_at f k = Some Dir"
proof (induction ps arbitrary: f)
  case Nil
  show ?case by simp
next
  case (Cons a ps)
  obtain p d where a: "a = (p, d)" by (cases a)
  show ?case
  proof (cases "node_at f (key env p) = Some Dir")
    case True
    with a Cons show ?thesis by simp
  next
    case False
    then have "key env p \<noteq> []" by auto
    with a Cons False show ?thesis
      by (auto simp: node_at_update_any)
  qed
qed

lemma map_of_filter_key:
  "map_of (filter (\<lambda>(k', n). P k') f) k = (if P k then map_of f k else None)"
  by (induction f) auto

lemma node_at_rmtree:
  "node_at (filter (\<lambda>(k', n). \<not> prefix k k') f) k' =
     (if k' = [] then Some Dir else if prefix k k' then None else node_at f k')"
  by (simp add: node_at_def map_of_filter_key)

lemma make_dirs_dir:
  "make_dirs f pre cs = Some f' \<Longrightarrow> node_at f pre = Some Dir \<Longrightarrow>
   node_at f' (pre @ cs) = Some Dir"
proof (induction cs arbitrary: f pre)
  case Nil
  then show ?case by simp
next
  case (Cons c cs)
  show ?case
  proof (cases "node_at f (pre @ [c])")
    case None
    with Cons.prems have "make_dirs (AList.update (pre @ [c]) Dir f) (pre @ [c]) cs = Some f'"
      by simp
    moreover have "node_at (AList.update (pre @ [c]) Dir f) (pre @ [c]) = Some Dir"
      by (simp add: node_at_update_any)
    ultimately have "node_at f' ((pre @ [c]) @ cs) = Some Dir"
      by (rule Cons.IH)
    then show ?thesis by simp
  next
    case (Some n)
    show ?thesis
    proof (cases n)
      case (File d)
      with Some Cons.prems show ?thesis by simp
    next
      case Dir
      with Some Cons.prems have "make_dirs f (pre @ [c]) cs = Some f'" by simp
      from Cons.IH [OF this] Some Dir show ?thesis by simp
    qed
  qed
qed

lemma mkdir_parents_Inr:
  "mkdir_parents env p w = (Inr u, w') \<Longrightarrow>
     node_at (fs w') (key env p) = Some Dir \<and> rows w' = rows w \<and> session w' = session w \<and>
     log w' = log w @ [Mkdir p]"
  by (auto simp: mkdir_parents_def split: option.splits dest: make_dirs_dir [where pre = "[]", simplified])

lemma mkdir_parents_Inl: "mkdir_parents env p w = (Inl e, w') \<Longrightarrow> w' = w"
  by (auto simp: mkdir_parents_def split: option.splits)


section \<open>Staging and cleanup of a batch upload\<close>

lemma save_files_frame:
  "save_files env files acc w = ((stopped, ups), w') \<Longrightarrow>
     rows w' = rows w \<and> session w' = session w \<and> spawns (log w') = spawns (log w) \<and>
     (\<forall>k. node_at (fs w') k = Some Dir \<longleftrightarrow> node_at (fs w) k = Some Dir)"
proof (induction files arbitrary: acc w)
  case Nil
  then show ?case by simp
next
  case (Cons part files)
  obtain r w1 where ow: "open_write env (path_div temp_dir (filename part)) (file_body part) w = (r, w1)"
    by (cases "open_write env (path_div temp_dir (filename part)) (file_body part) w")
  note fr = open_write_frame [OF ow]
  show ?case
  proof (cases r)
    case (Inl e)
    with Cons.prems ow fr show ?thesis by (simp add: Let_def)
  next
    case (Inr u)
    with Cons.prems ow
    have "save_files env files (acc @ [path_div temp_dir (filename part)]) w1 = ((stopped, ups), w')"
      by (simp add: Let_def)
    from Cons.IH [OF this] fr show ?thesis by simp
  qed
qed

text \<open>
  What the staging loop leaves behind: \<open>uploaded_files\<close> holds the paths of the files
  written in full, in order; the trace holds these, and after them the path of the file
  whose writing broke off, if that is what stopped the loop.
\<close>

lemma save_files_staged:
  "save_files env files acc w = ((stopped, ups), w') \<Longrightarrow>
     \<exists>n extra. n \<le> length files \<and>
        ups = acc @ map (\<lambda>f. path_div temp_dir (filename f)) (take n files) \<and>
        writes (log w') =
          writes (log w) @ map (\<lambda>f. path_div temp_dir (filename f)) (take n files) @ extra \<and>
        failed_writes (log w') = failed_writes (log w) @ extra \<and>
        (stopped = None \<longrightarrow> n = length files \<and> extra = [])"
proof (induction files arbitrary: acc w)
  case Nil
  then show ?case by simp
next
  case (Cons part files)
  let ?loc = "path_div temp_dir (filename part)"
  obtain r w1 where ow: "open_write env ?loc (file_body part) w = (r, w1)"
    by (cases "open_write env ?loc (file_body part) w")
  from open_write_cases [OF ow] consider
      (refused) "\<exists>e. r = Inl e" "w1 = w"
    | (written) "r = Inr ()" "log w1 = log w @ [Write ?loc]"
    | (broke) "\<exists>e. r = Inl e" "log w1 = log w @ [Write ?loc, WriteFailed ?loc]"
    by auto
  then show ?case
  proof cases
    case refused
    with Cons.prems ow have "ups = acc" "w' = w" "stopped \<noteq> None"
      by (auto simp: Let_def)
    then show ?thesis
      by (intro exI [of _ 0] exI [of _ "[]"]) simp
  next
    case broke
    with Cons.prems ow have "ups = acc" "w' = w1" "stopped \<noteq> None"
      by (auto simp: Let_def)
    with broke(2) show ?thesis
      by (intro exI [of _ 0] exI [of _ "[?loc]"]) (simp add: writes_append failed_writes_append)
  next
    case written
    with Cons.prems ow
    have sf: "save_files env files (acc @ [?loc]) w1 = ((stopped, ups), w')"
      by (simp add: Let_def)
    from Cons.IH [OF sf] obtain n extra where n: "n \<le> length files"
      "ups = (acc @ [?loc]) @ map (\<lambda>f. path_div temp_dir (filename f)) (take n files)"
      "writes (log w') =
         writes (log w1) @ map (\<lambda>f. path_div temp_dir (filename f)) (take n files) @ extra"
      "failed_writes (log w') = failed_writes (log w1) @ extra"
      "stopped = None \<longrightarrow> n = length files \<and> extra = []"
      by blast
    with written(2) show ?thesis
      by (intro exI [of _ "Suc n"] exI [of _ extra]) (simp add: writes_append failed_writes_append)
  qed
qed

lemma save_files_not_dir:
  "save_files env files acc w = ((stopped, ups), w') \<Longrightarrow>
   \<forall>p\<in>set acc. node_at (fs w) (key env p) \<noteq> Some Dir \<Longrightarrow>
   \<forall>p\<in>set ups. node_at (fs w') (key env p) \<noteq> Some Dir"
proof (induction files arbitrary: acc w)
  case Nil
  then show ?case by simp
next
  case (Cons part files)
  let ?loc = "path_div temp_dir (filename part)"
  obtain r w1 where ow: "open_write env ?loc (file_body part) w = (r, w1)"
    by (cases "open_write env ?loc (file_body part) w")
  note fr = open_write_frame(4) [OF ow]
  show ?case
  proof (cases r)
    case (Inl e)
    with Cons.prems ow fr show ?thesis
      by (auto simp: Let_def)
  next
    case (Inr u)
    with Cons.prems ow
    have sf: "save_files env files (acc @ [?loc]) w1 = ((stopped, ups), w')"
      by (simp add: Let_def)
    from open_write_cases [OF ow] Inr have "node_at (fs w) (key env ?loc) \<noteq> Some Dir"
      by auto
    with Cons.prems(2) fr
    have "\<forall>p\<in>set (acc @ [?loc]). node_at (fs w1) (key env p) \<noteq> Some Dir"
      by simp
    from Cons.IH [OF sf this] show ?thesis .
  qed
qed

lemma unlink_existing_ok:
  "\<forall>p\<in>set ups. node_at (fs w) (key env p) \<noteq> Some Dir \<Longrightarrow>
   \<exists>w'. unlink_existing env ups w = (Inr (), w') \<and>
        (\<forall>p\<in>set ups. node_at (fs w') (key env p) = None) \<and>
        (\<forall>k. node_at (fs w) k = None \<longrightarrow> node_at (fs w') k = None) \<and>
        (\<forall>k. node_at (fs w') k = Some Dir \<longleftrightarrow> node_at (fs w) k = Some Dir) \<and>
        rows w' = rows w \<and> session w' = session w \<and>
        spawns (log w') = spawns (log w) \<and> writes (log w') = writes (log w) \<and>
        failed_writes (log w') = failed_writes (log w)"
proof (induction ups arbitrary: w)
  case Nil
  then show ?case by (simp add: ret_def)
next
  case (Cons p ups)
  let ?k = "key env p"
  from Cons.prems have nd: "node_at (fs w) ?k \<noteq> Some Dir" by simp
  then have kn: "?k \<noteq> []" by auto
  define w1 where "w1 = (if node_at (fs w) ?k \<noteq> None
      then w\<lparr>fs := AList.delete ?k (fs w), log := log w @ [Unlink p]\<rparr> else w)"
  have step: "io_bind (path_exists env p) (\<lambda>there. if there then unlink env p else ret ()) w = (Inr (), w1)"
    using nd
    by (cases "node_at (fs w) ?k")
       (auto simp: io_bind_def path_exists_def unlink_def ret_def w1_def Let_def split: node.splits)
  have p1: "node_at (fs w1) ?k = None"
    using kn by (auto simp: w1_def node_at_delete)
  have none1: "\<forall>k. node_at (fs w) k = None \<longrightarrow> node_at (fs w1) k = None"
    by (auto simp: w1_def node_at_delete)
  have dir1: "\<forall>k. node_at (fs w1) k = Some Dir \<longleftrightarrow> node_at (fs w) k = Some Dir"
    using nd by (auto simp: w1_def node_at_delete)
  have fr1: "rows w1 = rows w" "session w1 = session w" "spawns (log w1) = spawns (log w)"
    "writes (log w1) = writes (log w)" "failed_writes (log w1) = failed_writes (log w)"
    by (auto simp: w1_def spawns_append writes_append failed_writes_append)
  from Cons.prems dir1 have "\<forall>q\<in>set ups. node_at (fs w1) (key env q) \<noteq> Some Dir" by simp
  from Cons.IH [OF this] obtain w' where w':
    "unlink_existing env ups w1 = (Inr (), w')"
    "\<forall>q\<in>set ups. node_at (fs w') (key env q) = None"
    "\<forall>k. node_at (fs w1) k = None \<longrightarrow> node_at (fs w') k = None"
    "\<forall>k. node_at (fs w') k = Some Dir \<longleftrightarrow> node_at (fs w1) k = Some Dir"
    "rows w' = rows w1" "session w' = session w1"
    "spawns (log w') = spawns (log w1)" "writes (log w') = writes (log w1)"
    "failed_writes (log w') = failed_writes (log w1)"
    by blast
  have run: "unlink_existing env (p # ups) w = (Inr (), w')"
    using step w'(1)
    by (auto simp: io_bind_def path_exists_def split: prod.splits sum.splits if_splits)
  show ?case
    using run w' p1 none1 dir1 fr1 by (intro exI [of _ w']) auto
qed

lemma temp_dir_key: "key env temp_dir = cwd env @ [''uploads'', ''temp'']"
  by (simp add: key_def resolve_def temp_dir_def path_div_def LOCAL_UPLOAD_PATH_def is_abs_def
      pure_str_def pure_root_def pure_parts_def)

lemma batch_cleanup_ok:
  assumes nd: "\<forall>p\<in>set ups. node_at (fs w) (key env p) \<noteq> Some Dir"
    and td: "node_at (fs w) (key env temp_dir) = Some Dir"
  shows "\<exists>w'. batch_cleanup env ups w = (Inr (), w') \<and>
        (\<forall>p\<in>set ups. node_at (fs w') (key env p) = None) \<and>
        (\<forall>k. prefix (key env temp_dir) k \<longrightarrow> node_at (fs w') k = None) \<and>
        rows w' = rows w \<and> session w' = session w \<and>
        spawns (log w') = spawns (log w) \<and> writes (log w') = writes (log w) \<and>
        failed_writes (log w') = failed_writes (log w)"
proof -
  from unlink_existing_ok [OF nd] obtain w1 where w1:
    "unlink_existing env ups w = (Inr (), w1)"
    "\<forall>p\<in>set ups. node_at (fs w1) (key env p) = None"
    "\<forall>k. node_at (fs w1) k = Some Dir \<longleftrightarrow> node_at (fs w) k = Some Dir"
    "rows w1 = rows w" "session w1 = session w"
    "spawns (log w1) = spawns (log w)" "writes (log w1) = writes (log w)"
    "failed_writes (log w1) = failed_writes (log w)"
    by blast
  let ?k = "key env temp_dir"
  let ?w' = "w1\<lparr>fs := filter (\<lambda>(k', n). \<not> prefix ?k k') (fs w1), log := log w1 @ [Rmtree temp_dir]\<rparr>"
  from td w1(3) have td1: "node_at (fs w1) ?k = Some Dir" by simp
  then have run: "batch_cleanup env ups w = (Inr (), ?w')"
    using w1(1)
    by (simp add: batch_cleanup_def io_bind_def path_exists_def rmtree_def Let_def)
  have staged: "\<forall>p\<in>set ups. node_at (fs ?w') (key env p) = None"
  proof
    fix p assume "p \<in> set ups"
    with w1(2) have n: "node_at (fs w1) (key env p) = None" by simp
    then have "key env p \<noteq> []" by auto
    with n show "node_at (fs ?w') (key env p) = None"
      by (simp add: node_at_rmtree)
  qed
  have "\<forall>k. prefix ?k k \<longrightarrow> node_at (fs ?w') k = None"
    by (auto simp: node_at_rmtree temp_dir_key)
  with run staged w1 show ?thesis
    by (intro exI [of _ ?w']) (simp add: spawns_append writes_append failed_writes_append)
qed

lemma log_uploads_run:
  "log_uploads folder current_user files w =
     (Inr (), w\<lparr>session := session w @ map (db_upload folder current_user) files\<rparr>)"
  by (induction files arbitrary: w) (simp_all add: ret_def io_bind_def db_add_def)

lemma batch_body_frame:
  assumes "batch_body env files folder current_user stopped w = (r, w')"
  shows "\<forall>k. node_at (fs w') k = Some Dir \<longleftrightarrow> node_at (fs w) k = Some Dir"
    and "writes (log w') = writes (log w)"
    and "failed_writes (log w') = failed_writes (log w)"
  using assms
  by (auto simp: batch_body_def raise_def io_bind_def spawn_def Let_def tool_writes_dir
      decode_text_def ret_def log_uploads_run db_commit_def writes_append failed_writes_append
      split: option.splits sum.splits prod.splits if_splits)

lemma batch_body_rows:
  assumes "batch_body env files folder current_user stopped w = (r, w')"
  shows "(\<forall>u. r = Inr u \<longrightarrow>
            rows w' = rows w @ session w @ map (db_upload folder current_user) files) \<and>
         (\<forall>e. r = Inl e \<longrightarrow> rows w' = rows w)"
  using assms
  by (auto simp: batch_body_def raise_def io_bind_def spawn_def Let_def
      decode_text_def ret_def log_uploads_run db_commit_def
      split: option.splits sum.splits prod.splits if_splits)

text \<open>The second copy is reached only when staging went through and the first copy was started.\<close>

lemma batch_body_spawns:
  assumes "batch_body env files folder current_user stopped w = (r, w')"
  shows "spawns (log w') = spawns (log w) \<or>
         spawns (log w') = spawns (log w) @ [batch_argv folder] \<or>
         (spawns (log w') = spawns (log w) @ [batch_argv folder, batch_argv folder] \<and>
          stopped = None \<and>
          (\<forall>p. tool env (Suc (length (spawns (log w)))) (batch_argv folder) = Inr p \<longrightarrow>
               returncode p \<noteq> 0 \<longrightarrow> (\<exists>e. r = Inl e) \<and>
               (\<forall>t. decode env (stderr p) = Inr t \<longrightarrow>
                  r = Inl (HTTPException 500 (''Failed to upload to cloud storage: '' @ t)))))"
  using assms
  by (auto simp: batch_body_def raise_def io_bind_def spawn_def Let_def spawns_append
      decode_text_def ret_def log_uploads_run db_commit_def
      split: option.splits sum.splits prod.splits if_splits)

text \<open>
  The course of a batch upload. Either the request stops before anything is staged, or
  the staging directory is made, the files are staged, the body runs, and the cleanup
  runs to its end.
\<close>

lemma upload_multiple_files_early:
  assumes "has_dotdot (clean_path env folder) \<or>
           (\<exists>e. fst (mkdir_parents env temp_dir (get_db w)) = Inl e)"
  shows "\<exists>e. upload_multiple_files env files folder current_user w =
           (Inl (HTTPException 500 e), get_db w)"
  using assms
  by (cases "mkdir_parents env temp_dir (get_db w)")
     (auto simp: upload_multiple_files_def catch_all_def io_bind_def path_check_def raise_def
      ret_def dest: mkdir_parents_Inl)

lemma upload_multiple_files_flow:
  assumes ok: "\<not> has_dotdot (clean_path env folder)"
    and mk: "mkdir_parents env temp_dir (get_db w) = (Inr (), w1)"
    and sv: "save_files env files [] w1 = ((stopped, ups), w2)"
    and bd: "batch_body env files folder current_user stopped w2 = (rb, w3)"
  shows "\<exists>w4. batch_cleanup env ups w3 = (Inr (), w4) \<and>
           upload_multiple_files env files folder current_user w =
             ((case rb of Inl e \<Rightarrow> Inl (HTTPException 500 (exn_str e))
                        | Inr u \<Rightarrow> Inr (UploadedMany (map filename files) folder)), w4) \<and>
           (\<forall>p\<in>set ups. node_at (fs w4) (key env p) = None) \<and>
           (\<forall>k. prefix (key env temp_dir) k \<longrightarrow> node_at (fs w4) k = None) \<and>
           rows w4 = rows w3 \<and> spawns (log w4) = spawns (log w3) \<and>
           writes (log w4) = writes (log w3) \<and>
           failed_writes (log w4) = failed_writes (log w3)"
proof -
  from mkdir_parents_Inr [OF mk] have d1: "node_at (fs w1) (key env temp_dir) = Some Dir"
    by simp
  from save_files_frame [OF sv] d1 have d2: "node_at (fs w2) (key env temp_dir) = Some Dir"
    by simp
  from save_files_not_dir [OF sv] have n2: "\<forall>p\<in>set ups. node_at (fs w2) (key env p) \<noteq> Some Dir"
    by simp
  from batch_body_frame(1) [OF bd] d2 n2
  have d3: "node_at (fs w3) (key env temp_dir) = Some Dir"
    and n3: "\<forall>p\<in>set ups. node_at (fs w3) (key env p) \<noteq> Some Dir"
    by simp_all
  from batch_cleanup_ok [OF n3 d3] obtain w4 where w4:
    "batch_cleanup env ups w3 = (Inr (), w4)"
    "\<forall>p\<in>set ups. node_at (fs w4) (key env p) = None"
    "\<forall>k. prefix (key env temp_dir) k \<longrightarrow> node_at (fs w4) k = None"
    "rows w4 = rows w3" "spawns (log w4) = spawns (log w3)" "writes (log w4) = writes (log w3)"
    "failed_writes (log w4) = failed_writes (log w3)"
    by blast
  have "upload_multiple_files env files folder current_user w =
      ((case rb of Inl e \<Rightarrow> Inl (HTTPException 500 (exn_str e))
                 | Inr u \<Rightarrow> Inr (UploadedMany (map filename files) folder)), w4)"
    using ok mk sv bd w4(1)
    by (simp add: upload_multiple_files_def catch_all_def io_bind_def path_check_def ret_def
        io_finally_def split: sum.splits)
  with w4 show ?thesis by blast
qed

lemma serve_Inl:
  "handler w = (Inl (HTTPException c d), w') \<Longrightarrow> serve env handler w = (Http c (Detail d), w')"
  by (simp add: serve_def respond_def)

lemma serve_UploadedMany:
  "handler w = (Inr (UploadedMany ns f), w') \<Longrightarrow>
   serve env handler w = (Http 200 (Json (UploadedMany ns f)), w')"
  by (simp add: serve_def respond_def)

lemma get_db_frame [simp]:
  "rows (get_db w) = rows w" "log (get_db w) = log w" "fs (get_db w) = fs w"
  "session (get_db w) = []"
  by (simp_all add: get_db_def)

section \<open>The upload records of a batch\<close>

text \<open>
  C4: when a batch upload of N files succeeds, exactly N rows are inserted, one per file
  in order, each with status \<open>success\<close> and the identity of the authenticated user; when
  the request fails no row is written; and when the remote copy (the second run of the
  tool, the one whose exit status the handler tests) ends with a non-zero status, the
  request fails with status 500 and no row is written.
\<close>

theorem batch_upload_records:
  "(status_code (fst (serve env (upload_multiple_files env files folder current_user) w)) = 200 \<longrightarrow>
      rows (snd (serve env (upload_multiple_files env files folder current_user) w)) =
        rows w @ map (db_upload folder current_user) files \<and>
      length (map (db_upload folder current_user) files) = length files \<and>
      (\<forall>r\<in>set (map (db_upload folder current_user) files).
          status r = ''success'' \<and> uploaded_by r = user_id current_user)) \<and>
   (status_code (fst (serve env (upload_multiple_files env files folder current_user) w)) \<noteq> 200 \<longrightarrow>
      rows (snd (serve env (upload_multiple_files env files folder current_user) w)) = rows w) \<and>
   (\<forall>p. spawns (log (snd (serve env (upload_multiple_files env files folder current_user) w))) =
          spawns (log w) @ [batch_argv folder, batch_argv folder] \<and>
        tool env (Suc (length (spawns (log w)))) (batch_argv folder) = Inr p \<and>
        returncode p \<noteq> 0 \<longrightarrow>
        status_code (fst (serve env (upload_multiple_files env files folder current_user) w)) = 500 \<and>
        rows (snd (serve env (upload_multiple_files env files folder current_user) w)) = rows w)"
proof (cases "has_dotdot (clean_path env folder) \<or>
              (\<exists>e. fst (mkdir_parents env temp_dir (get_db w)) = Inl e)")
  case True
  from upload_multiple_files_early [OF True] obtain e where
    "upload_multiple_files env files folder current_user w = (Inl (HTTPException 500 e), get_db w)"
    by blast
  then have "serve env (upload_multiple_files env files folder current_user) w =
        (Http 500 (Detail e), get_db w)"
    by (rule serve_Inl)
  then show ?thesis by simp
next
  case False
  then have ok: "\<not> has_dotdot (clean_path env folder)" by simp
  from False obtain w1 where mk: "mkdir_parents env temp_dir (get_db w) = (Inr (), w1)"
    by (cases "mkdir_parents env temp_dir (get_db w)"; cases "fst (mkdir_parents env temp_dir (get_db w))") auto
  obtain stopped ups w2 where sv: "save_files env files [] w1 = ((stopped, ups), w2)"
    by (cases "save_files env files [] w1") auto
  obtain rb w3 where bd: "batch_body env files folder current_user stopped w2 = (rb, w3)"
    by (cases "batch_body env files folder current_user stopped w2")
  from upload_multiple_files_flow [OF ok mk sv bd] obtain w4 where w4:
    "upload_multiple_files env files folder current_user w =
       ((case rb of Inl e \<Rightarrow> Inl (HTTPException 500 (exn_str e))
                  | Inr u \<Rightarrow> Inr (UploadedMany (map filename files) folder)), w4)"
    "rows w4 = rows w3" "spawns (log w4) = spawns (log w3)"
    by blast
  from mkdir_parents_Inr [OF mk] save_files_frame [OF sv]
  have pre: "rows w2 = rows w" "session w2 = []" "spawns (log w2) = spawns (log w)"
    by (simp_all add: spawns_append)
  show ?thesis
  proof (cases rb)
    case (Inl e)
    with w4(1) have "upload_multiple_files env files folder current_user w =
        (Inl (HTTPException 500 (exn_str e)), w4)" by simp
    then have sv': "serve env (upload_multiple_files env files folder current_user) w =
        (Http 500 (Detail (exn_str e)), w4)"
      by (rule serve_Inl)
    from batch_body_rows [OF bd] Inl have "rows w3 = rows w2" by simp
    with sv' w4(2) pre show ?thesis by simp
  next
    case (Inr u)
    with w4(1) have "upload_multiple_files env files folder current_user w =
        (Inr (UploadedMany (map filename files) folder), w4)" by simp
    then have sv': "serve env (upload_multiple_files env files folder current_user) w =
        (Http 200 (Json (UploadedMany (map filename files) folder)), w4)"
      by (rule serve_UploadedMany)
    from batch_body_rows [OF bd] Inr
    have r3: "rows w3 = rows w2 @ session w2 @ map (db_upload folder current_user) files"
      by simp
    from batch_body_spawns [OF bd] Inr pre(3) w4(3)
    have "\<forall>p. spawns (log w4) = spawns (log w) @ [batch_argv folder, batch_argv folder] \<and>
        tool env (Suc (length (spawns (log w)))) (batch_argv folder) = Inr p \<and>
        returncode p \<noteq> 0 \<longrightarrow> False"
      by auto
    with sv' r3 w4(2) pre show ?thesis
      by (auto simp: db_upload_def)
  qed
qed

theorem batch_upload_records_witness:
  "status_code (fst (serve calm (upload_multiple_files calm three_files ''docs'' alice)
      sample_world)) = 200 \<and>
   rows (snd (serve calm (upload_multiple_files calm three_files ''docs'' alice) sample_world)) =
     map (db_upload ''docs'' alice) three_files \<and>
   length (map (db_upload ''docs'' alice) three_files) = 3 \<and>
   map status (map (db_upload ''docs'' alice) three_files) =
     [''success'', ''success'', ''success''] \<and>
   map uploaded_by (map (db_upload ''docs'' alice) three_files) = [7, 7, 7] \<and>
   spawns (log (snd (serve second_fails (upload_multiple_files second_fails three_files ''docs''
      alice) sample_world))) = [batch_argv ''docs'', batch_argv ''docs''] \<and>
   tool second_fails 1 (batch_argv ''docs'') = Inr (failing ''quota exceeded'') \<and>
   returncode (failing ''quota exceeded'') \<noteq> 0 \<and>
   status_code (fst (serve second_fails (upload_multiple_files second_fails three_files ''docs''
      alice) sample_world)) = 500 \<and>
   rows (snd (serve second_fails (upload_multiple_files second_fails three_files ''docs'' alice)
      sample_world)) = []"
proof -
  have h1: "status_code (fst (serve calm (upload_multiple_files calm three_files ''docs'' alice)
      sample_world)) = 200"
    by code_simp
  have h2: "spawns (log (snd (serve second_fails (upload_multiple_files second_fails three_files
      ''docs'' alice) sample_world))) =
      spawns (log sample_world) @ [batch_argv ''docs'', batch_argv ''docs'']"
    by code_simp
  have h3: "tool second_fails (Suc (length (spawns (log sample_world)))) (batch_argv ''docs'') =
      Inr (failing ''quota exceeded'')"
    by code_simp
  have h4: "returncode (failing ''quota exceeded'') \<noteq> 0"
    by (simp add: failing_def)
  have h5: "rows sample_world = []" "spawns (log sample_world) = []" "user_id alice = 7"
    "length three_files = 3"
    by (simp_all add: sample_world_def alice_def three_files_def)
  from batch_upload_records [of calm three_files "''docs''" alice sample_world] h1 h5
  have ok: "rows (snd (serve calm (upload_multiple_files calm three_files ''docs'' alice)
        sample_world)) = map (db_upload ''docs'' alice) three_files"
    "\<forall>r\<in>set (map (db_upload ''docs'' alice) three_files).
       status r = ''success'' \<and> uploaded_by r = 7"
    by simp_all
  from batch_upload_records [of second_fails three_files "''docs''" alice sample_world] h2 h3 h4
  have bad: "status_code (fst (serve second_fails (upload_multiple_files second_fails three_files
        ''docs'' alice) sample_world)) = 500 \<and>
      rows (snd (serve second_fails (upload_multiple_files second_fails three_files ''docs'' alice)
        sample_world)) = rows sample_world"
    by blast
  from ok(2) have each: "map status (map (db_upload ''docs'' alice) three_files) =
      [''success'', ''success'', ''success'']"
    "map uploaded_by (map (db_upload ''docs'' alice) three_files) = [7, 7, 7]"
    by (simp_all add: three_files_def)
  from h1 ok(1) each h2 h3 h4 h5 bad show ?thesis by simp
qed

section \<open>Staging files after an upload\<close>





lemma serve_world:
  "fs (snd (serve env handler w)) = fs (snd (handler w))"
  "rows (snd (serve env handler w)) = rows (snd (handler w))"
  "writes (log (snd (serve env handler w))) = writes (log (snd (handler w)))"
  "failed_writes (log (snd (serve env handler w))) = failed_writes (log (snd (handler w)))"
  "spawns (log (snd (serve env handler w))) = spawns (log (snd (handler w)))"
  "Mkdir p \<in> set (log (snd (serve env handler w))) \<longleftrightarrow> Mkdir p \<in> set (log (snd (handler w)))"
  by (simp_all add: serve_def respond_def writes_append spawns_append failed_writes_append
      split: prod.splits sum.splits exn.splits payload.splits option.splits node.splits)

text \<open>
  How a batch upload ends: it stops before anything is staged; or the staging directory
  is set up and, at the end, every file written in full is gone and so is everything
  below the staging directory. When the copy has been reached, every file of the
  request has been written in full.
\<close>

lemma upload_multiple_files_post:
  assumes "upload_multiple_files env files folder current_user w = (r, w')"
  shows "(w' = get_db w \<and> (\<exists>e. r = Inl e)) \<or>
         (\<exists>n extra. n \<le> length files \<and>
            writes (log w') =
              writes (log w) @ map (\<lambda>f. path_div temp_dir (filename f)) (take n files) @ extra \<and>
            failed_writes (log w') = failed_writes (log w) @ extra \<and>
            (spawns (log w') \<noteq> spawns (log w) \<longrightarrow> n = length files \<and> extra = []) \<and>
            (\<forall>p\<in>set (map (\<lambda>f. path_div temp_dir (filename f)) (take n files)).
                node_at (fs w') (key env p) = None) \<and>
            (\<forall>k. prefix (key env temp_dir) k \<longrightarrow> node_at (fs w') k = None))"
proof (cases "has_dotdot (clean_path env folder) \<or>
              (\<exists>e. fst (mkdir_parents env temp_dir (get_db w)) = Inl e)")
  case True
  from upload_multiple_files_early [OF True, of files current_user] assms show ?thesis
    by auto
next
  case False
  then have ok: "\<not> has_dotdot (clean_path env folder)" by simp
  from False obtain w1 where mk: "mkdir_parents env temp_dir (get_db w) = (Inr (), w1)"
    by (cases "mkdir_parents env temp_dir (get_db w)";
        cases "fst (mkdir_parents env temp_dir (get_db w))") auto
  obtain stopped ups w2 where sv: "save_files env files [] w1 = ((stopped, ups), w2)"
    by (cases "save_files env files [] w1") auto
  obtain rb w3 where bd: "batch_body env files folder current_user stopped w2 = (rb, w3)"
    by (cases "batch_body env files folder current_user stopped w2")
  from upload_multiple_files_flow [OF ok mk sv bd] assms have post:
    "\<forall>p\<in>set ups. node_at (fs w') (key env p) = None"
    "\<forall>k. prefix (key env temp_dir) k \<longrightarrow> node_at (fs w') k = None"
    "writes (log w') = writes (log w3)" "failed_writes (log w') = failed_writes (log w3)"
    "spawns (log w') = spawns (log w3)"
    by auto
  from save_files_staged [OF sv] obtain n extra where n: "n \<le> length files"
    "ups = map (\<lambda>f. path_div temp_dir (filename f)) (take n files)"
    "writes (log w2) =
       writes (log w1) @ map (\<lambda>f. path_div temp_dir (filename f)) (take n files) @ extra"
    "failed_writes (log w2) = failed_writes (log w1) @ extra"
    "stopped = None \<longrightarrow> n = length files \<and> extra = []"
    by auto
  from mkdir_parents_Inr [OF mk]
  have l1: "writes (log w1) = writes (log w)" "failed_writes (log w1) = failed_writes (log w)"
    "spawns (log w1) = spawns (log w)"
    by (simp_all add: writes_append failed_writes_append spawns_append)
  from save_files_frame [OF sv] l1 have s2: "spawns (log w2) = spawns (log w)" by simp
  have "stopped \<noteq> None \<longrightarrow> spawns (log w3) = spawns (log w2)"
    using bd by (auto simp: batch_body_def raise_def)
  with s2 post(5) have reach: "spawns (log w') \<noteq> spawns (log w) \<longrightarrow> stopped = None"
    by auto
  from n(3) l1 batch_body_frame(2) [OF bd] post(3)
  have W: "writes (log w') =
      writes (log w) @ map (\<lambda>f. path_div temp_dir (filename f)) (take n files) @ extra"
    by simp
  from n(4) l1 batch_body_frame(3) [OF bd] post(4)
  have F: "failed_writes (log w') = failed_writes (log w) @ extra"
    by simp
  from n(5) reach
  have c1: "spawns (log w') \<noteq> spawns (log w) \<longrightarrow> n = length files \<and> extra = []"
    by blast
  from post(1) n(2)
  have c2: "\<forall>p\<in>set (map (\<lambda>f. path_div temp_dir (filename f)) (take n files)).
      node_at (fs w') (key env p) = None"
    by simp
  show ?thesis
  proof (intro disjI2 exI conjI)
    show "n \<le> length files" by (rule n(1))
    show "writes (log w') =
      writes (log w) @ map (\<lambda>f. path_div temp_dir (filename f)) (take n files) @ extra"
      by (rule W)
    show "failed_writes (log w') = failed_writes (log w) @ extra" by (rule F)
    show "spawns (log w') \<noteq> spawns (log w) \<longrightarrow> n = length files \<and> extra = []"
      by (rule c1)
    show "\<forall>p\<in>set (map (\<lambda>f. path_div temp_dir (filename f)) (take n files)).
      node_at (fs w') (key env p) = None"
      by (rule c2)
    show "\<forall>k. prefix (key env temp_dir) k \<longrightarrow> node_at (fs w') k = None"
      by (rule post(2))
  qed
qed




section \<open>The staging directory of a batch upload\<close>

lemma split_sep_plain: "CHR ''/'' \<notin> set s \<Longrightarrow> split_sep s = [s]"
  by (induction s) auto

text \<open>A plain file name is staged directly below the staging directory.\<close>

lemma path_div_plain:
  assumes "name \<noteq> []" "name \<noteq> ''.''" "CHR ''/'' \<notin> set name"
  shows "path_div ''uploads/temp'' name = ''uploads/temp/'' @ name"
proof -
  from assms(1,3) have na: "\<not> is_abs name"
    by (cases name) (auto simp: is_abs_def)
  have "split_sep (''uploads/temp/'' @ name) = [''uploads'', ''temp'', name]"
    using split_sep_plain [OF assms(3)] by simp
  with assms(1,2) have "pure_parts (''uploads/temp/'' @ name) = [''uploads'', ''temp'', name]"
    by (simp add: pure_parts_def)
  then have "pure_str (''uploads/temp/'' @ name) = ''uploads/temp/'' @ name"
    by (simp add: pure_str_def pure_root_def Let_def)
  with na show ?thesis
    by (simp add: path_div_def)
qed

lemma temp_dir_value: "temp_dir = ''uploads/temp''"
  by (simp add: temp_dir_def path_div_def LOCAL_UPLOAD_PATH_def is_abs_def pure_str_def
      pure_root_def pure_parts_def)

lemma batch_writes_when_copied:
  assumes "log w = []"
    and "spawns (log (snd (serve env (upload_multiple_files env files folder current_user) w))) \<noteq> []"
  shows "writes (log (snd (serve env (upload_multiple_files env files folder current_user) w))) =
         map (\<lambda>f. path_div ''uploads/temp'' (filename f)) files"
proof -
  obtain r2 w2 where b: "upload_multiple_files env files folder current_user w = (r2, w2)"
    by (cases "upload_multiple_files env files folder current_user w")
  from assms b have sp: "spawns (log w2) \<noteq> spawns (log w)"
    by (simp add: serve_world)
  from upload_multiple_files_post [OF b] sp assms(1)
  have "writes (log w2) = map (\<lambda>f. path_div temp_dir (filename f)) files"
    by auto
  with b show ?thesis
    by (simp add: serve_world temp_dir_value)
qed

text \<open>
  C8, as stated: every batch upload stages its files in a subdirectory of its own, so
  that two batch uploads never write to the same staging path. The staging directory is
  the constant \<open>uploads/temp\<close>: two requests of different users, for different folders and
  with different content, both write \<open>uploads/temp/report.txt\<close>.
\<close>

theorem batch_staging_path_shared:
  "writes (log (snd (serve calm (upload_multiple_files calm [part ''report.txt'' ''first'']
      ''docs'' alice) sample_world))) = [''uploads/temp/report.txt''] \<and>
   writes (log (snd (serve calm (upload_multiple_files calm [part ''report.txt'' ''second'']
      ''pics'' bob) sample_world))) = [''uploads/temp/report.txt'']"
  by (intro conjI; code_simp)

text \<open>
  C8, amended: every batch upload that gets as far as the remote copy has written each
  of its files, in order, to the path that joins the fixed directory \<open>uploads/temp\<close> with
  the name the client gave the file, which for a plain name is \<open>uploads/temp/\<close> followed
  by the name. The path depends on the file name only, not on the request: any two batch
  uploads that carry a file of the same name, whoever the users and whatever the folders
  and environments, write to the same staging path.
\<close>

theorem batch_staging_paths:
  assumes "log w = []" and "log w' = []"
  shows "temp_dir = ''uploads/temp'' \<and>
         (spawns (log (snd (serve env (upload_multiple_files env files folder current_user) w)))
            \<noteq> [] \<longrightarrow>
          writes (log (snd (serve env (upload_multiple_files env files folder current_user) w))) =
            map (\<lambda>f. path_div ''uploads/temp'' (filename f)) files) \<and>
         (name \<noteq> [] \<and> name \<noteq> ''.'' \<and> CHR ''/'' \<notin> set name \<longrightarrow>
          path_div ''uploads/temp'' name = ''uploads/temp/'' @ name) \<and>
         (spawns (log (snd (serve env (upload_multiple_files env files folder current_user) w)))
            \<noteq> [] \<and>
          spawns (log (snd (serve env' (upload_multiple_files env' files' folder' other_user) w')))
            \<noteq> [] \<and>
          f \<in> set files \<and> f' \<in> set files' \<and> filename f = filename f' \<longrightarrow>
          path_div ''uploads/temp'' (filename f) \<in>
            set (writes (log (snd (serve env
              (upload_multiple_files env files folder current_user) w)))) \<and>
          path_div ''uploads/temp'' (filename f) \<in>
            set (writes (log (snd (serve env'
              (upload_multiple_files env' files' folder' other_user) w')))))"
proof (intro conjI impI)
  show "temp_dir = ''uploads/temp''" by (rule temp_dir_value)
next
  assume "spawns (log (snd (serve env (upload_multiple_files env files folder current_user) w)))
            \<noteq> []"
  with assms(1)
  show "writes (log (snd (serve env (upload_multiple_files env files folder current_user) w))) =
            map (\<lambda>f. path_div ''uploads/temp'' (filename f)) files"
    by (rule batch_writes_when_copied)
next
  assume "name \<noteq> [] \<and> name \<noteq> ''.'' \<and> CHR ''/'' \<notin> set name"
  then show "path_div ''uploads/temp'' name = ''uploads/temp/'' @ name"
    by (simp add: path_div_plain)
next
  assume a: "spawns (log (snd (serve env (upload_multiple_files env files folder current_user) w)))
            \<noteq> [] \<and>
          spawns (log (snd (serve env' (upload_multiple_files env' files' folder' other_user) w')))
            \<noteq> [] \<and>
          f \<in> set files \<and> f' \<in> set files' \<and> filename f = filename f'"
  then have "f \<in> set files" by simp
  then have "path_div ''uploads/temp'' (filename f) \<in>
      set (map (\<lambda>f. path_div ''uploads/temp'' (filename f)) files)"
    by (simp only: set_map) (rule imageI)
  moreover from a batch_writes_when_copied [OF assms(1), of env files folder current_user]
  have "writes (log (snd (serve env (upload_multiple_files env files folder current_user) w))) =
      map (\<lambda>f. path_div ''uploads/temp'' (filename f)) files"
    by blast
  ultimately show "path_div ''uploads/temp'' (filename f) \<in>
            set (writes (log (snd (serve env
              (upload_multiple_files env files folder current_user) w))))"
    by (simp only:)
next
  assume a: "spawns (log (snd (serve env (upload_multiple_files env files folder current_user) w)))
            \<noteq> [] \<and>
          spawns (log (snd (serve env' (upload_multiple_files env' files' folder' other_user) w')))
            \<noteq> [] \<and>
          f \<in> set files \<and> f' \<in> set files' \<and> filename f = filename f'"
  then have "f' \<in> set files'" and eq: "filename f = filename f'" by simp_all
  then have "path_div ''uploads/temp'' (filename f') \<in>
      set (map (\<lambda>f. path_div ''uploads/temp'' (filename f)) files')"
    by (simp only: set_map) (rule imageI)
  moreover from a batch_writes_when_copied [OF assms(2), of env' files' folder' other_user]
  have "writes (log (snd (serve env' (upload_multiple_files env' files' folder' other_user) w'))) =
      map (\<lambda>f. path_div ''uploads/temp'' (filename f)) files'"
    by blast
  ultimately show "path_div ''uploads/temp'' (filename f) \<in>
            set (writes (log (snd (serve env'
              (upload_multiple_files env' files' folder' other_user) w'))))"
    by (simp only: eq)
qed

theorem batch_staging_paths_witness:
  "log sample_world = [] \<and> temp_dir = ''uploads/temp'' \<and>
   spawns (log (snd (serve calm (upload_multiple_files calm [part ''report.txt'' ''first'']
      ''docs'' alice) sample_world))) \<noteq> [] \<and>
   spawns (log (snd (serve second_fails (upload_multiple_files second_fails
      [part ''notes.txt'' ''n'', part ''report.txt'' ''second''] ''pics'' bob) sample_world)))
      \<noteq> [] \<and>
   writes (log (snd (serve calm (upload_multiple_files calm [part ''report.txt'' ''first'']
      ''docs'' alice) sample_world))) =
     map (\<lambda>f. path_div ''uploads/temp'' (filename f)) [part ''report.txt'' ''first''] \<and>
   path_div ''uploads/temp'' ''report.txt'' = ''uploads/temp/report.txt'' \<and>
   ''uploads/temp/report.txt'' \<in> set (writes (log (snd (serve calm (upload_multiple_files calm
      [part ''report.txt'' ''first''] ''docs'' alice) sample_world)))) \<and>
   ''uploads/temp/report.txt'' \<in> set (writes (log (snd (serve second_fails
      (upload_multiple_files second_fails
        [part ''notes.txt'' ''n'', part ''report.txt'' ''second''] ''pics'' bob) sample_world))))"
proof -
  have h0: "log sample_world = []"
    by (simp add: sample_world_def)
  have h1: "spawns (log (snd (serve calm (upload_multiple_files calm [part ''report.txt'' ''first'']
      ''docs'' alice) sample_world))) \<noteq> []"
    by code_simp
  have h2: "spawns (log (snd (serve second_fails (upload_multiple_files second_fails
      [part ''notes.txt'' ''n'', part ''report.txt'' ''second''] ''pics'' bob) sample_world)))
      \<noteq> []"
    by code_simp
  have h3: "''report.txt'' \<noteq> []" "''report.txt'' \<noteq> ''.''" "CHR ''/'' \<notin> set ''report.txt''"
    by simp_all
  have h4: "part ''report.txt'' ''first'' \<in> set [part ''report.txt'' ''first'']"
    "part ''report.txt'' ''second'' \<in> set [part ''notes.txt'' ''n'', part ''report.txt'' ''second'']"
    "filename (part ''report.txt'' ''first'') = filename (part ''report.txt'' ''second'')"
    "filename (part ''report.txt'' ''first'') = ''report.txt''"
    by (simp_all add: part_def)
  note inst = batch_staging_paths [OF h0 h0, where env = calm
      and files = "[part ''report.txt'' ''first'']" and folder = "''docs''"
      and current_user = alice and name = "''report.txt''" and env' = second_fails
      and files' = "[part ''notes.txt'' ''n'', part ''report.txt'' ''second'']"
      and folder' = "''pics''" and other_user = bob
      and f = "part ''report.txt'' ''first''" and f' = "part ''report.txt'' ''second''"]
  from inst have t0: "temp_dir = ''uploads/temp''" by blast
  from inst h1 have t1: "writes (log (snd (serve calm (upload_multiple_files calm
      [part ''report.txt'' ''first''] ''docs'' alice) sample_world))) =
     map (\<lambda>f. path_div ''uploads/temp'' (filename f)) [part ''report.txt'' ''first'']"
    by blast
  from inst h3 have t2: "path_div ''uploads/temp'' ''report.txt'' = ''uploads/temp/'' @ ''report.txt''"
    by blast
  from inst h1 h2 h4(1,2,3)
  have t3: "path_div ''uploads/temp'' (filename (part ''report.txt'' ''first'')) \<in>
      set (writes (log (snd (serve calm (upload_multiple_files calm
        [part ''report.txt'' ''first''] ''docs'' alice) sample_world))))"
    "path_div ''uploads/temp'' (filename (part ''report.txt'' ''first'')) \<in>
      set (writes (log (snd (serve second_fails (upload_multiple_files second_fails
        [part ''notes.txt'' ''n'', part ''report.txt'' ''second''] ''pics'' bob) sample_world))))"
    by blast+
  from t2 have t2': "path_div ''uploads/temp'' ''report.txt'' = ''uploads/temp/report.txt''"
    by simp
  from t3 h4(4) t2' have t3':
    "''uploads/temp/report.txt'' \<in> set (writes (log (snd (serve calm (upload_multiple_files calm
      [part ''report.txt'' ''first''] ''docs'' alice) sample_world))))"
    "''uploads/temp/report.txt'' \<in> set (writes (log (snd (serve second_fails
      (upload_multiple_files second_fails
        [part ''notes.txt'' ''n'', part ''report.txt'' ''second''] ''pics'' bob) sample_world))))"
    by (simp_all only:)
  show ?thesis
    by (intro conjI) (rule h0 t0 h1 h2 t1 t2' t3')+
qed

section \<open>Separators in the identifiers of a listing\<close>

lemma replace_dslash_head: "prefix ''/'' (replace_dslash s) = prefix ''/'' s"
  by (induction s rule: replace_dslash.induct) auto

lemma replace_dslash_no_double:
  "\<not> sublist ''///'' s \<Longrightarrow> \<not> sublist ''//'' (replace_dslash s)"
proof (induction s rule: replace_dslash.induct)
  case (1 a b cs)
  show ?case
  proof (cases "a = CHR ''/'' \<and> b = CHR ''/''")
    case True
    from "1.prems" True have nohead: "\<not> prefix ''/'' cs" and rest: "\<not> sublist ''///'' cs"
      by (auto simp: sublist_Cons_right)
    from "1.IH"(1) True rest have "\<not> sublist ''//'' (replace_dslash cs)" by simp
    with nohead True show ?thesis
      by (simp add: sublist_Cons_right replace_dslash_head)
  next
    case False
    from "1.prems" have rest: "\<not> sublist ''///'' (b # cs)"
      by (auto simp: sublist_Cons_right)
    from "1.IH"(2) False rest have ih: "\<not> sublist ''//'' (replace_dslash (b # cs))" by simp
    have "prefix ''/'' (replace_dslash (b # cs)) = (b = CHR ''/'')"
      by (simp only: replace_dslash_head) auto
    with ih False show ?thesis
      by (auto simp: sublist_Cons_right)
  qed
qed (auto simp: sublist_Cons_right)

text \<open>A run of separators on its own: two become one, three become two, five become three.\<close>

lemma replace_dslash_run:
  "replace_dslash (replicate n (CHR ''/'')) = replicate ((n + 1) div 2) (CHR ''/'')"
proof (induction n rule: less_induct)
  case (less n)
  show ?case
  proof (cases n)
    case 0
    then show ?thesis by simp
  next
    case (Suc m)
    show ?thesis
    proof (cases m)
      case 0
      with Suc show ?thesis by simp
    next
      case (Suc k)
      with \<open>n = Suc m\<close> have n: "n = Suc (Suc k)" by simp
      with less.IH [of k] show ?thesis by simp
    qed
  qed
qed

text \<open>
  C9: the identifier of every listed entry is the base path joined with the entry's
  path with all duplicate separators collapsed to one, also where three or more
  separators meet. The handler calls \<open>.replace("//", "/")\<close> once. For the request
  \<open>GET /files?path=a//\<close> and a listing with the entry \<open>b\<close>, the joined string is \<open>a///b\<close> and
  the identifier (and the path) of the item in the response is \<open>a//b\<close>, which still holds
  a doubled separator.
\<close>

theorem file_item_id_keeps_double_separator:
  "fst (serve listing_b (list_files listing_b ''a//'') sample_world) =
     Http 200 (Json (Listing
       [\<lparr>item_id = ''a//b'', item_name = ''b'', item_type = ''file'', item_size = 12,
         item_modified = ''2025-01-01T00:00:00Z'', item_path = ''a//b''\<rparr>])) \<and>
   item_id (to_file_item ''a//'' (sample_entry ''b'')) = ''a//b'' \<and>
   sublist ''//'' (item_id (to_file_item ''a//'' (sample_entry ''b'')))"
proof (intro conjI)
  show "fst (serve listing_b (list_files listing_b ''a//'') sample_world) =
     Http 200 (Json (Listing
       [\<lparr>item_id = ''a//b'', item_name = ''b'', item_type = ''file'', item_size = 12,
         item_modified = ''2025-01-01T00:00:00Z'', item_path = ''a//b''\<rparr>]))"
    by code_simp
  show "item_id (to_file_item ''a//'' (sample_entry ''b'')) = ''a//b''"
    by (simp add: to_file_item_def sample_entry_def)
  show "sublist ''//'' (item_id (to_file_item ''a//'' (sample_entry ''b'')))"
    by (simp add: to_file_item_def sample_entry_def sublist_Cons_right)
qed

section \<open>Delete resolution\<close>

text \<open>
  The run of the delete handler once the path check has passed and the probe has been
  started: the command follows from the stripped output of the probe alone, and the
  response from the outcome of that command alone.
\<close>

lemma delete_file_run:
  assumes ok: "\<not> has_dotdot (clean_path env path)"
    and probe: "tool env (length (spawns (log w))) (probe_argv path) = Inr probe"
    and cmd: "command = (if strip (stdout probe) \<noteq> [] then ''purge'' else ''delete'')"
  shows "spawns (log (snd (serve env (delete_file env path) w))) =
           spawns (log w) @ [probe_argv path, delete_argv command path]"
    and "tool env (Suc (length (spawns (log w)))) (delete_argv command path) = Inr d \<Longrightarrow>
         returncode d = 0 \<Longrightarrow>
         fst (serve env (delete_file env path) w) =
           Http 200 (Json (Message ((if command = ''purge'' then ''Folder'' else ''File'')
                                    @ '' deleted successfully'')))"
    and "tool env (Suc (length (spawns (log w)))) (delete_argv command path) = Inr d \<Longrightarrow>
         returncode d \<noteq> 0 \<Longrightarrow> decode env (stderr d) = Inr t \<Longrightarrow>
         fst (serve env (delete_file env path) w) =
           Http 500 (Detail (''500: Failed to delete '' @ command @ '': '' @ t))"
  using assms
  by (auto simp: serve_def respond_def delete_file_def catch_all_def io_bind_def path_check_def
      ret_def raise_def spawn_def decode_text_def Let_def spawns_append dec_nat_500
      split: sum.splits prod.splits exn.splits payload.splits)

lemma probe_argv_spelled:
  "probe_argv path =
     [''rclone'', ''lsf'', ''--dirs-only'', replace_dslash (''GCS:media_mover_test/'' @ path)]"
  by (simp add: probe_argv_def RCLONE_REMOTE_def)

lemma delete_argv_spelled:
  "delete_argv command path =
     [''rclone'', command, replace_dslash (''GCS:media_mover_test/'' @ path),
      ''--gcs-bucket-policy-only'', ''--no-traverse'']"
  by (simp add: delete_argv_def RCLONE_REMOTE_def)

lemma strip_nonempty: "\<exists>c\<in>set s. \<not> is_space c \<Longrightarrow> strip s \<noteq> []"
proof -
  assume "\<exists>c\<in>set s. \<not> is_space c"
  then have a: "dropWhile is_space s \<noteq> []"
    by (simp add: dropWhile_eq_Nil_conv)
  then have "\<not> is_space (hd (dropWhile is_space s))"
    by (rule hd_dropWhile)
  moreover from a have "hd (dropWhile is_space s) \<in> set (rev (dropWhile is_space s))"
    by (simp only: set_rev) (rule hd_in_set)
  ultimately have "\<exists>c\<in>set (rev (dropWhile is_space s)). \<not> is_space c"
    by blast
  then have "dropWhile is_space (rev (dropWhile is_space s)) \<noteq> []"
    by (simp add: dropWhile_eq_Nil_conv)
  then show ?thesis
    by (simp add: strip_def)
qed

text \<open>The listing of directories is empty exactly when no directory is listed, and then only.\<close>

lemma lsf_dirs_empty: "lsf_dirs names = [] \<longleftrightarrow> names = []"
  by (cases names) (simp_all add: lsf_dirs_def)

lemma lsf_dirs_strip: "strip (lsf_dirs names) \<noteq> [] \<longleftrightarrow> lsf_dirs names \<noteq> []"
proof (cases names)
  case Nil
  then show ?thesis by (simp add: lsf_dirs_def strip_def)
next
  case (Cons name rest)
  then have "CHR ''/'' \<in> set (lsf_dirs names)"
    by (simp add: lsf_dirs_def)
  moreover have "\<not> is_space (CHR ''/'')"
    by (simp add: is_space_def)
  ultimately have "strip (lsf_dirs names) \<noteq> []"
    by (intro strip_nonempty) blast
  with Cons show ?thesis
    by (simp add: lsf_dirs_empty)
qed

text \<open>
  C2: in the delete endpoint the target is first probed with the directories-only
  listing; if the probe yields any output the purge command is issued, and otherwise
  the single-object delete command, and the success message names a folder or a file
  accordingly. The output of the probe is a listing as the tool prints it.
\<close>

theorem delete_resolution:
  assumes "\<not> has_dotdot (clean_path env path)"
    and "tool env (length (spawns (log w)))
           [''rclone'', ''lsf'', ''--dirs-only'',
            replace_dslash (''GCS:media_mover_test/'' @ path)] = Inr probe"
    and "stdout probe = lsf_dirs names"
  shows "(stdout probe \<noteq> [] \<longrightarrow>
            spawns (log (snd (serve env (delete_file env path) w))) =
              spawns (log w) @
                [[''rclone'', ''lsf'', ''--dirs-only'',
                  replace_dslash (''GCS:media_mover_test/'' @ path)],
                 [''rclone'', ''purge'', replace_dslash (''GCS:media_mover_test/'' @ path),
                  ''--gcs-bucket-policy-only'', ''--no-traverse'']] \<and>
            (\<forall>d. tool env (Suc (length (spawns (log w))))
                   [''rclone'', ''purge'', replace_dslash (''GCS:media_mover_test/'' @ path),
                    ''--gcs-bucket-policy-only'', ''--no-traverse''] = Inr d \<and>
                 returncode d = 0 \<longrightarrow>
                 fst (serve env (delete_file env path) w) =
                   Http 200 (Json (Message ''Folder deleted successfully'')))) \<and>
         (stdout probe = [] \<longrightarrow>
            spawns (log (snd (serve env (delete_file env path) w))) =
              spawns (log w) @
                [[''rclone'', ''lsf'', ''--dirs-only'',
                  replace_dslash (''GCS:media_mover_test/'' @ path)],
                 [''rclone'', ''delete'', replace_dslash (''GCS:media_mover_test/'' @ path),
                  ''--gcs-bucket-policy-only'', ''--no-traverse'']] \<and>
            (\<forall>d. tool env (Suc (length (spawns (log w))))
                   [''rclone'', ''delete'', replace_dslash (''GCS:media_mover_test/'' @ path),
                    ''--gcs-bucket-policy-only'', ''--no-traverse''] = Inr d \<and>
                 returncode d = 0 \<longrightarrow>
                 fst (serve env (delete_file env path) w) =
                   Http 200 (Json (Message ''File deleted successfully''))))"
proof -
  from assms(2) have pr: "tool env (length (spawns (log w))) (probe_argv path) = Inr probe"
    by (simp only: probe_argv_spelled)
  show ?thesis
  proof (cases "stdout probe \<noteq> []")
    case True
    with assms(3) lsf_dirs_strip [of names] have "strip (stdout probe) \<noteq> []" by simp
    then have c: "''purge'' = (if strip (stdout probe) \<noteq> [] then ''purge'' else ''delete'')"
      by simp
    from delete_file_run(1) [OF assms(1) pr c] delete_file_run(2) [OF assms(1) pr c] True
    show ?thesis
      by (simp only: probe_argv_spelled delete_argv_spelled) simp
  next
    case False
    then have "strip (stdout probe) = []" by (simp add: strip_def)
    then have c: "''delete'' = (if strip (stdout probe) \<noteq> [] then ''purge'' else ''delete'')"
      by simp
    from delete_file_run(1) [OF assms(1) pr c] delete_file_run(2) [OF assms(1) pr c] False
    show ?thesis
      by (simp only: probe_argv_spelled delete_argv_spelled) simp
  qed
qed

theorem delete_resolution_witness:
  "\<not> has_dotdot (clean_path (probing one_dir) ''docs'') \<and>
   tool (probing one_dir) 0 [''rclone'', ''lsf'', ''--dirs-only'', ''GCS:media_mover_test/docs''] =
     Inr one_dir \<and>
   stdout one_dir = lsf_dirs [''photos''] \<and> stdout one_dir \<noteq> [] \<and>
   spawns (log (snd (serve (probing one_dir) (delete_file (probing one_dir) ''docs'')
      sample_world))) =
     [[''rclone'', ''lsf'', ''--dirs-only'', ''GCS:media_mover_test/docs''],
      [''rclone'', ''purge'', ''GCS:media_mover_test/docs'',
       ''--gcs-bucket-policy-only'', ''--no-traverse'']] \<and>
   fst (serve (probing one_dir) (delete_file (probing one_dir) ''docs'') sample_world) =
     Http 200 (Json (Message ''Folder deleted successfully'')) \<and>
   \<not> has_dotdot (clean_path calm ''docs'') \<and>
   tool calm 0 [''rclone'', ''lsf'', ''--dirs-only'', ''GCS:media_mover_test/docs''] = Inr quiet \<and>
   stdout quiet = lsf_dirs [] \<and> stdout quiet = [] \<and>
   spawns (log (snd (serve calm (delete_file calm ''docs'') sample_world))) =
     [[''rclone'', ''lsf'', ''--dirs-only'', ''GCS:media_mover_test/docs''],
      [''rclone'', ''delete'', ''GCS:media_mover_test/docs'',
       ''--gcs-bucket-policy-only'', ''--no-traverse'']] \<and>
   fst (serve calm (delete_file calm ''docs'') sample_world) =
     Http 200 (Json (Message ''File deleted successfully''))"
proof -
  have rd: "replace_dslash (''GCS:media_mover_test/'' @ ''docs'') = ''GCS:media_mover_test/docs''"
    by simp
  have n0: "length (spawns (log sample_world)) = 0" "spawns (log sample_world) = []"
    by (simp_all add: sample_world_def)
  have a1: "\<not> has_dotdot (clean_path (probing one_dir) ''docs'')"
    by code_simp
  have a2: "tool (probing one_dir) 0
      [''rclone'', ''lsf'', ''--dirs-only'', ''GCS:media_mover_test/docs''] = Inr one_dir"
    by code_simp
  have a3: "stdout one_dir = lsf_dirs [''photos'']" "stdout one_dir \<noteq> []"
    by (simp_all add: one_dir_def lsf_dirs_def)
  have a4: "tool (probing one_dir) (Suc 0)
      [''rclone'', ''purge'', ''GCS:media_mover_test/docs'',
       ''--gcs-bucket-policy-only'', ''--no-traverse''] = Inr quiet"
    by code_simp
  have b1: "\<not> has_dotdot (clean_path calm ''docs'')"
    by code_simp
  have b2: "tool calm 0 [''rclone'', ''lsf'', ''--dirs-only'', ''GCS:media_mover_test/docs''] =
      Inr quiet"
    by code_simp
  have b3: "stdout quiet = lsf_dirs []" "stdout quiet = []"
    by (simp_all add: quiet_def lsf_dirs_def)
  have b4: "tool calm (Suc 0)
      [''rclone'', ''delete'', ''GCS:media_mover_test/docs'',
       ''--gcs-bucket-policy-only'', ''--no-traverse''] = Inr quiet"
    by code_simp
  have q: "returncode quiet = 0"
    by (simp add: quiet_def)
  from a2 have a2': "tool (probing one_dir) (length (spawns (log sample_world)))
      [''rclone'', ''lsf'', ''--dirs-only'', replace_dslash (''GCS:media_mover_test/'' @ ''docs'')] =
      Inr one_dir"
    by (simp add: rd n0)
  from b2 have b2': "tool calm (length (spawns (log sample_world)))
      [''rclone'', ''lsf'', ''--dirs-only'', replace_dslash (''GCS:media_mover_test/'' @ ''docs'')] =
      Inr quiet"
    by (simp add: rd n0)
  from delete_resolution [OF a1 a2' a3(1)] a3(2) a4 q
  have a: "spawns (log (snd (serve (probing one_dir) (delete_file (probing one_dir) ''docs'')
        sample_world))) =
     [[''rclone'', ''lsf'', ''--dirs-only'', ''GCS:media_mover_test/docs''],
      [''rclone'', ''purge'', ''GCS:media_mover_test/docs'',
       ''--gcs-bucket-policy-only'', ''--no-traverse'']]"
    "fst (serve (probing one_dir) (delete_file (probing one_dir) ''docs'') sample_world) =
     Http 200 (Json (Message ''Folder deleted successfully''))"
    by (simp_all add: n0)
  from delete_resolution [OF b1 b2' b3(1)] b3(2) b4 q
  have b: "spawns (log (snd (serve calm (delete_file calm ''docs'') sample_world))) =
     [[''rclone'', ''lsf'', ''--dirs-only'', ''GCS:media_mover_test/docs''],
      [''rclone'', ''delete'', ''GCS:media_mover_test/docs'',
       ''--gcs-bucket-policy-only'', ''--no-traverse'']]"
    "fst (serve calm (delete_file calm ''docs'') sample_world) =
     Http 200 (Json (Message ''File deleted successfully''))"
    by (simp_all add: n0)
  show ?thesis
    by (intro conjI) (rule a1 a2 a3 a b1 b2 b3 b)+
qed

section \<open>The exit status of the probe\<close>

text \<open>
  C10: the exit status and the error stream of the probe are not looked at. For every
  outcome of the probe with empty output, whatever its exit status and error stream, the
  single-object delete command is issued next, and the response is decided by that
  command: its success is reported as a deleted file, its failure with its own error
  text.
\<close>

theorem delete_ignores_probe_status:
  assumes "\<not> has_dotdot (clean_path env path)"
    and "tool env (length (spawns (log w)))
           [''rclone'', ''lsf'', ''--dirs-only'',
            replace_dslash (''GCS:media_mover_test/'' @ path)] = Inr probe"
    and "stdout probe = []"
  shows "spawns (log (snd (serve env (delete_file env path) w))) =
           spawns (log w) @
             [[''rclone'', ''lsf'', ''--dirs-only'',
               replace_dslash (''GCS:media_mover_test/'' @ path)],
              [''rclone'', ''delete'', replace_dslash (''GCS:media_mover_test/'' @ path),
               ''--gcs-bucket-policy-only'', ''--no-traverse'']] \<and>
         (\<forall>d. tool env (Suc (length (spawns (log w))))
                [''rclone'', ''delete'', replace_dslash (''GCS:media_mover_test/'' @ path),
                 ''--gcs-bucket-policy-only'', ''--no-traverse''] = Inr d \<and>
              returncode d = 0 \<longrightarrow>
              fst (serve env (delete_file env path) w) =
                Http 200 (Json (Message ''File deleted successfully''))) \<and>
         (\<forall>d t. tool env (Suc (length (spawns (log w))))
                [''rclone'', ''delete'', replace_dslash (''GCS:media_mover_test/'' @ path),
                 ''--gcs-bucket-policy-only'', ''--no-traverse''] = Inr d \<and>
              returncode d \<noteq> 0 \<and> decode env (stderr d) = Inr t \<longrightarrow>
              fst (serve env (delete_file env path) w) =
                Http 500 (Detail (''500: Failed to delete delete: '' @ t)))"
proof -
  from assms(2) have pr: "tool env (length (spawns (log w))) (probe_argv path) = Inr probe"
    by (simp only: probe_argv_spelled)
  from assms(3) have c: "''delete'' = (if strip (stdout probe) \<noteq> [] then ''purge'' else ''delete'')"
    by (simp add: strip_def)
  from delete_file_run(1) [OF assms(1) pr c] delete_file_run(2) [OF assms(1) pr c]
    delete_file_run(3) [OF assms(1) pr c]
  show ?thesis
    by (simp only: probe_argv_spelled delete_argv_spelled) simp
qed

theorem delete_ignores_probe_status_witness:
  "\<not> has_dotdot (clean_path (probing (failing ''boom'')) ''docs'') \<and>
   tool (probing (failing ''boom'')) 0
     [''rclone'', ''lsf'', ''--dirs-only'', ''GCS:media_mover_test/docs''] =
     Inr (failing ''boom'') \<and>
   stdout (failing ''boom'') = [] \<and> returncode (failing ''boom'') = 1 \<and>
   stderr (failing ''boom'') = ''boom'' \<and>
   spawns (log (snd (serve (probing (failing ''boom'')) (delete_file (probing (failing ''boom''))
      ''docs'') sample_world))) =
     [[''rclone'', ''lsf'', ''--dirs-only'', ''GCS:media_mover_test/docs''],
      [''rclone'', ''delete'', ''GCS:media_mover_test/docs'',
       ''--gcs-bucket-policy-only'', ''--no-traverse'']] \<and>
   fst (serve (probing (failing ''boom'')) (delete_file (probing (failing ''boom'')) ''docs'')
      sample_world) = Http 200 (Json (Message ''File deleted successfully'')) \<and>
   fst (serve broken (delete_file broken ''docs'') sample_world) =
     Http 500 (Detail ''500: Failed to delete delete: boom'')"
proof -
  have rd: "replace_dslash (''GCS:media_mover_test/'' @ ''docs'') = ''GCS:media_mover_test/docs''"
    by simp
  have n0: "length (spawns (log sample_world)) = 0" "spawns (log sample_world) = []"
    by (simp_all add: sample_world_def)
  have h1: "\<not> has_dotdot (clean_path (probing (failing ''boom'')) ''docs'')"
    "\<not> has_dotdot (clean_path broken ''docs'')"
    by code_simp+
  have h2: "tool (probing (failing ''boom'')) 0
     [''rclone'', ''lsf'', ''--dirs-only'', ''GCS:media_mover_test/docs''] =
     Inr (failing ''boom'')"
    "tool broken 0 [''rclone'', ''lsf'', ''--dirs-only'', ''GCS:media_mover_test/docs''] =
     Inr (failing ''boom'')"
    by code_simp+
  have h3: "stdout (failing ''boom'') = []" "returncode (failing ''boom'') = 1"
    "stderr (failing ''boom'') = ''boom''" "returncode (failing ''boom'') \<noteq> 0"
    by (simp_all add: failing_def)
  have h4: "tool (probing (failing ''boom'')) (Suc 0)
      [''rclone'', ''delete'', ''GCS:media_mover_test/docs'',
       ''--gcs-bucket-policy-only'', ''--no-traverse''] = Inr quiet"
    "tool broken (Suc 0)
      [''rclone'', ''delete'', ''GCS:media_mover_test/docs'',
       ''--gcs-bucket-policy-only'', ''--no-traverse''] = Inr (failing ''boom'')"
    by code_simp+
  have h5: "returncode quiet = 0" "decode broken (stderr (failing ''boom'')) = Inr ''boom''"
    by (simp_all add: quiet_def broken_def sample_env_def failing_def)
  from h2 have h2': "tool (probing (failing ''boom'')) (length (spawns (log sample_world)))
      [''rclone'', ''lsf'', ''--dirs-only'', replace_dslash (''GCS:media_mover_test/'' @ ''docs'')] =
      Inr (failing ''boom'')"
    "tool broken (length (spawns (log sample_world)))
      [''rclone'', ''lsf'', ''--dirs-only'', replace_dslash (''GCS:media_mover_test/'' @ ''docs'')] =
      Inr (failing ''boom'')"
    by (simp_all add: rd n0)
  from delete_ignores_probe_status [OF h1(1) h2'(1) h3(1)] h4(1) h5(1)
  have a: "spawns (log (snd (serve (probing (failing ''boom''))
        (delete_file (probing (failing ''boom'')) ''docs'') sample_world))) =
     [[''rclone'', ''lsf'', ''--dirs-only'', ''GCS:media_mover_test/docs''],
      [''rclone'', ''delete'', ''GCS:media_mover_test/docs'',
       ''--gcs-bucket-policy-only'', ''--no-traverse'']]"
    "fst (serve (probing (failing ''boom'')) (delete_file (probing (failing ''boom'')) ''docs'')
      sample_world) = Http 200 (Json (Message ''File deleted successfully''))"
    by (simp_all add: n0)
  from delete_ignores_probe_status [OF h1(2) h2'(2) h3(1)] h4(2) h3(4) h5(2)
  have b: "fst (serve broken (delete_file broken ''docs'') sample_world) =
     Http 500 (Detail ''500: Failed to delete delete: boom'')"
    by (simp add: n0)
  show ?thesis
    by (intro conjI) (rule h1 h2 h3 a b)+
qed

section \<open>A failing run of the tool\<close>























end
